theory Spec2Isabelle
  imports Main "HOL-Library.Word" "HOL-Library.AList"
begin

section \<open>Errors\<close>

text \<open>
  Go errors are values. The sentinels the package compares against are constructors of
  their own; an error of the operating system or of the storage service is
  \<open>OtherError\<close> with its text; \<open>fmt.Errorf\<close> is \<open>Errorf\<close> with its format and its
  arguments, and \<open>Wrapf\<close> when the format ends in \<open>%w\<close> (the wrapped error is kept).
  \<open>Panic\<close> stands for a run-time panic (a nil pointer dereference).
\<close>

datatype error =
    ErrFolderNameMissing
  | ErrLibraryElementsNotFound
  | SkipDir
  | ErrNotExist
  | OtherError string
  | Errorf string "string list"
  | Wrapf string "string list" error
  | Panic string

text \<open>\<open>errors.Is\<close>: the error itself or one it wraps.\<close>

fun errorsIs :: "error \<Rightarrow> error \<Rightarrow> bool" where
  "errorsIs (Wrapf f as e) target = (Wrapf f as e = target \<or> errorsIs e target)"
| "errorsIs e target = (e = target)"

section \<open>Configuration (config and configs of the config reader)\<close>

text \<open>
  \<open>Options\<close> is a \<open>map[string]interface{}\<close>: an association list of dynamically typed
  values. The int64 fields carry identifiers and a number of seconds; none is used in
  arithmetic that could overflow, so they are integers.
\<close>

datatype jvalue = JNull | JBool bool | JInt int | JString string

record config =
  cfgName :: string
  cfgType :: string
  cfgOrgID :: int
  cfgFolder :: string
  cfgFolderUID :: string
  cfgEditable :: bool
  cfgOptions :: "(string \<times> jvalue) list"
  cfgDisableDeletion :: bool
  cfgUpdateIntervalSeconds :: int
  cfgAllowUIUpdates :: bool

text \<open>
  \<open>configs\<close> is one provider entry as the YAML decoder leaves it. Each field is a
  \<open>values.*Value\<close> whose \<open>Value()\<close> is the decoded value; the record holds these values.
\<close>

record configs =
  csName :: string
  csType :: string
  csOrgID :: int
  csFolder :: string
  csFolderUID :: string
  csEditable :: bool
  csOptions :: "(string \<times> jvalue) list"
  csDisableDeletion :: bool
  csUpdateIntervalSeconds :: int
  csAllowUIUpdates :: bool


definition toConfig :: "configs \<Rightarrow> config" where
  "toConfig v =
     \<lparr> cfgName = csName v, cfgType = csType v, cfgOrgID = csOrgID v,
       cfgFolder = csFolder v, cfgFolderUID = csFolderUID v, cfgEditable = csEditable v,
       cfgOptions = csOptions v, cfgDisableDeletion = csDisableDeletion v,
       cfgUpdateIntervalSeconds = csUpdateIntervalSeconds v,
       cfgAllowUIUpdates = csAllowUIUpdates v \<rparr>"




section \<open>Files, records and provisioning references\<close>

text \<open>
  \<open>os.FileInfo\<close> as far as the package reads it: the base name, whether the entry is a
  directory, and the modification time (\<open>ModTime().Unix()\<close>, in seconds).
\<close>

record fileInfo =
  fiName :: string
  fiIsDir :: bool
  fiModTime :: int

text \<open>
  A library element as the package reads and writes it, the DTO handed to the storage
  service, and the provisioning reference the storage keeps for a file
  (\<open>LibraryElementsProvisioning\<close>). \<open>Data\<close> is the parsed JSON object of the element.
\<close>

type_synonym json = "(string \<times> jvalue) list"

record LibraryElement =
  leId :: int
  leUid :: string
  leTitle :: string
  leOrgID :: int
  leFolderID :: int
  leData :: json

record SaveLibraryElementDTO =
  dtoLibraryElement :: LibraryElement
  dtoUpdatedAt :: int
  dtoOverwrite :: bool
  dtoOrgId :: int

record LibraryElementsProvisioning =
  ExternalId :: string
  Name :: string
  Updated :: int
  CheckSum :: string
  LibraryElementsId :: int

record LibraryElementsJSONFile =
  jfLibraryElements :: SaveLibraryElementDTO
  checkSum :: string
  lastModified :: int

record queryResult =
  qrId :: int
  qrIsFolder :: bool

text \<open>
  A Go \<open>map[string]T\<close> is an association list with distinct keys: a lookup is \<open>map_of\<close>,
  an assignment is \<open>AList.update\<close>, and \<open>range\<close> visits the entries in the order of the
  list. Go leaves that order unspecified; the statements about a loop below hold for
  every list, so for every order.
\<close>

type_synonym files = "(string \<times> fileInfo) list"
type_synonym refs = "(string \<times> LibraryElementsProvisioning) list"

section \<open>The directory tree a walk sees\<close>

text \<open>
  What \<open>os.Lstat\<close> and the directory listing return below one root: an entry whose
  \<open>Lstat\<close> fails (its name, the error), a non-directory (name, modification time), or a
  directory (name, modification time, the error of reading its names if any, and its
  entries in the order of the listing).
\<close>

datatype fsNode =
    LstatError string error
  | FileNode string int
  | DirNode string int "error option" "fsNode list"

fun nodeName :: "fsNode \<Rightarrow> string" where
  "nodeName (LstatError n e) = n"
| "nodeName (FileNode n t) = n"
| "nodeName (DirNode n t e cs) = n"

fun nodeIsDir :: "fsNode \<Rightarrow> bool" where
  "nodeIsDir (DirNode n t e cs) = True"
| "nodeIsDir node = False"

fun nodeInfo :: "fsNode \<Rightarrow> fileInfo option" where
  "nodeInfo (LstatError n e) = None"
| "nodeInfo (FileNode n t) = Some \<lparr>fiName = n, fiIsDir = False, fiModTime = t\<rparr>"
| "nodeInfo (DirNode n t e cs) = Some \<lparr>fiName = n, fiIsDir = True, fiModTime = t\<rparr>"

section \<open>The environment: operating system, helpers and the storage service\<close>

text \<open>
  The calls the package makes outside itself are parameters. \<open>env\<close> holds the read-only
  ones: the operating system (\<open>os.Stat\<close>, of which only the error is read, \<open>os.Lstat\<close>,
  \<open>filepath.Abs\<close>, \<open>filepath.EvalSymlinks\<close>, \<open>os.Open\<close> followed by \<open>ioutil.ReadAll\<close>, and
  the tree \<open>filepath.Walk\<close> sees from a root) and the pure helpers (\<open>util.Md5SumString\<close>,
  \<open>simplejson.NewJson\<close>, \<open>NewLibraryElementFromJson\<close>, \<open>NewLibraryElementFolder\<close>,
  \<open>models.SlugifyTitle\<close>). A Go function that returns \<open>(value, error)\<close> is a sum.
  \<open>rangeFiles\<close> and \<open>rangeRefs\<close> are the order in which \<open>range\<close> visits the entries of the
  two maps of a scan: Go leaves it unspecified, and a statement that needs every entry
  to be visited says that the order is a permutation of the entries.
\<close>

record env =
  osStat :: "string \<Rightarrow> error option"
  osLstat :: "string \<Rightarrow> error + fileInfo"
  filepathAbs :: "string \<Rightarrow> error + string"
  filepathEvalSymlinks :: "string \<Rightarrow> error + string"
  osReadAll :: "string \<Rightarrow> error + string"
  Md5SumString :: "string \<Rightarrow> error + string"
  NewJson :: "string \<Rightarrow> error + json"
  NewLibraryElementFromJson :: "json \<Rightarrow> LibraryElement"
  NewLibraryElementFolder :: "string \<Rightarrow> LibraryElement"
  SlugifyTitle :: "string \<Rightarrow> string"
  walkTree :: "string \<Rightarrow> fsNode"
  rangeFiles :: "files \<Rightarrow> files"
  rangeRefs :: "refs \<Rightarrow> refs"

text \<open>
  \<open>LibraryElementsProvisioningService\<close> (and the bus query of \<open>getOrCreateFolderID\<close>) is an
  interface over a storage state \<open>'s\<close> the package never looks into: a query returns its
  result, a mutating call returns its result and the new state.
\<close>

record 's service =
  GetProvisionedLibraryElementsData :: "'s \<Rightarrow> string \<Rightarrow> error + LibraryElementsProvisioning list"
  SaveProvisionedLibraryElements ::
    "'s \<Rightarrow> SaveLibraryElementDTO \<Rightarrow> LibraryElementsProvisioning \<Rightarrow> (error + LibraryElement) \<times> 's"
  DeleteProvisionedLibraryElements :: "'s \<Rightarrow> int \<Rightarrow> int \<Rightarrow> error option \<times> 's"
  UnprovisionLibraryElements :: "'s \<Rightarrow> int \<Rightarrow> error option \<times> 's"
  SaveFolderForProvisionedLibraryElements ::
    "'s \<Rightarrow> SaveLibraryElementDTO \<Rightarrow> (error + LibraryElement) \<times> 's"
  GetLibraryElementsQuery :: "'s \<Rightarrow> string \<Rightarrow> int \<Rightarrow> error + queryResult"

text \<open>
  What a scan does to the outside is a trace: every mutating call to the storage
  service with its arguments, and every log line (level, message, the error logged),
  in the order of execution. The world is the storage state and the trace so far.
\<close>

datatype level = LvlDebug | LvlInfo | LvlWarn | LvlError

datatype event =
    Log level string "error option"
  | CallSave SaveLibraryElementDTO LibraryElementsProvisioning
  | CallDelete int int
  | CallUnprovision int
  | CallSaveFolder SaveLibraryElementDTO

record 's world =
  store :: 's
  trace :: "event list"

definition emit :: "event \<Rightarrow> 's world \<Rightarrow> 's world" where
  "emit e w = w\<lparr>trace := trace w @ [e]\<rparr>"

fun logIfErr :: "string \<Rightarrow> error option \<Rightarrow> 's world \<Rightarrow> 's world" where
  "logIfErr msg None w = w"
| "logIfErr msg (Some e) w = emit (Log LvlError msg (Some e)) w"

fun isMutation :: "event \<Rightarrow> bool" where
  "isMutation (Log l m e) = False"
| "isMutation ev = True"

fun isSave :: "event \<Rightarrow> bool" where
  "isSave (CallSave dto dp) = True"
| "isSave ev = False"

section \<open>The usage tracker\<close>

record LibraryElementsIdentity =
  idFolderID :: int
  idTitle :: string

record provisioningMetadata =
  uid :: string
  identity :: LibraryElementsIdentity

text \<open>The counters are \<open>uint8\<close>: an increment wraps at 256.\<close>

record usageTracker =
  uidUsage :: "string \<rightharpoonup> 8 word"
  titleUsage :: "LibraryElementsIdentity \<rightharpoonup> 8 word"

definition Exists :: "LibraryElementsIdentity \<Rightarrow> bool" where
  "Exists d = (length (idTitle d) > 0)"

definition newUsageTracker :: usageTracker where
  "newUsageTracker = \<lparr>uidUsage = Map.empty, titleUsage = Map.empty\<rparr>"

text \<open>\<open>m[k]++\<close> on a Go map: a missing key reads as zero.\<close>

definition increment :: "('k \<rightharpoonup> 8 word) \<Rightarrow> 'k \<Rightarrow> ('k \<rightharpoonup> 8 word)" where
  "increment m k = m(k \<mapsto> (case m k of None \<Rightarrow> 0 | Some c \<Rightarrow> c) + 1)"

definition track :: "usageTracker \<Rightarrow> provisioningMetadata \<Rightarrow> usageTracker" where
  "track t pm =
     (let t1 = (if length (uid pm) > 0 then t\<lparr>uidUsage := increment (uidUsage t) (uid pm)\<rparr> else t)
      in if Exists (identity pm)
         then t1\<lparr>titleUsage := increment (titleUsage t1) (identity pm)\<rparr>
         else t1)"

definition zeroMetadata :: provisioningMetadata where
  "zeroMetadata = \<lparr>uid = [], identity = \<lparr>idFolderID = 0, idTitle = []\<rparr>\<rparr>"

section \<open>The file reader\<close>

record FileReader =
  Cfg :: config
  Path :: string
  FoldersFromFilesStructure :: bool
  frUsageTracker :: usageTracker
  dbWriteAccessRestricted :: bool

text \<open>
  \<open>resolveSymlink\<close>. \<open>filepath.EvalSymlinks\<close> returns the empty path with its error;
  the result is the pair Go returns, a nil \<open>FileInfo\<close> being \<open>None\<close>.
\<close>

definition resolveSymlink :: "env \<Rightarrow> fileInfo \<Rightarrow> string \<Rightarrow> fileInfo option \<times> error option" where
  "resolveSymlink E fileinfo path =
     (let (checkFilepath, err) =
            (case filepathEvalSymlinks E path of Inl e \<Rightarrow> ([], Some e) | Inr p \<Rightarrow> (p, None))
      in if path \<noteq> checkFilepath
         then (case osLstat E checkFilepath of
                 Inl e \<Rightarrow> (None, Some e)
               | Inr fi \<Rightarrow> (Some fi, None))
         else (Some fileinfo, err))"

text \<open>\<open>createPanelElementsJSON\<close> (called as \<open>createLibraryElementsJSON\<close>): never an error.\<close>

definition createLibraryElementsJSON ::
  "env \<Rightarrow> json \<Rightarrow> int \<Rightarrow> config \<Rightarrow> int \<Rightarrow> error + SaveLibraryElementDTO" where
  "createLibraryElementsJSON E data' lastModified' cfg folderID =
     Inr \<lparr> dtoLibraryElement =
             (NewLibraryElementFromJson E data')\<lparr>leOrgID := cfgOrgID cfg, leFolderID := folderID\<rparr>,
           dtoUpdatedAt = lastModified', dtoOverwrite = True, dtoOrgId = cfgOrgID cfg \<rparr>"

text \<open>
  \<open>readLibraryElementsFromFile\<close>: read the whole file, hash it, parse it, build the DTO;
  the first error ends it. (Closing the file only logs a warning on failure.)
\<close>

definition readLibraryElementsFromFile ::
  "env \<Rightarrow> FileReader \<Rightarrow> string \<Rightarrow> int \<Rightarrow> int \<Rightarrow> error + LibraryElementsJSONFile" where
  "readLibraryElementsFromFile E fr path lastModified' folderID =
     (case osReadAll E path of
        Inl err \<Rightarrow> Inl err
      | Inr all' \<Rightarrow>
     (case Md5SumString E all' of
        Inl err \<Rightarrow> Inl err
      | Inr checkSum' \<Rightarrow>
     (case NewJson E all' of
        Inl err \<Rightarrow> Inl err
      | Inr data' \<Rightarrow>
     (case createLibraryElementsJSON E data' lastModified' (Cfg fr) folderID of
        Inl err \<Rightarrow> Inl err
      | Inr dash \<Rightarrow>
          Inr \<lparr>jfLibraryElements = dash, checkSum = checkSum', lastModified = lastModified'\<rparr>))))"

text \<open>
  \<open>getOrCreateFolderID\<close>: the pair \<open>(id, error)\<close> Go returns, and the world after the
  call (a folder that is not found is created through the storage service).
\<close>

definition getOrCreateFolderID ::
  "env \<Rightarrow> 's service \<Rightarrow> config \<Rightarrow> string \<Rightarrow> 's world \<Rightarrow> (int \<times> error option) \<times> 's world" where
  "getOrCreateFolderID E S cfg folderName w =
     (if folderName = [] then ((0, Some ErrFolderNameMissing), w)
      else
        (case GetLibraryElementsQuery S (store w) (SlugifyTitle E folderName) (cfgOrgID cfg) of
           Inl err \<Rightarrow>
             if \<not> errorsIs err ErrLibraryElementsNotFound then ((0, Some err), w)
             else
               (let panel = \<lparr> dtoLibraryElement =
                                (NewLibraryElementFolder E folderName)\<lparr>leUid := cfgFolderUID cfg\<rparr>,
                              dtoUpdatedAt = 0, dtoOverwrite = True, dtoOrgId = cfgOrgID cfg \<rparr>;
                    (res, s') = SaveFolderForProvisionedLibraryElements S (store w) panel;
                    w' = \<lparr>store = s', trace = trace w @ [CallSaveFolder panel]\<rparr>
                in (case res of
                      Inl err' \<Rightarrow> ((0, Some err'), w')
                    | Inr dbDash \<Rightarrow> ((leId dbDash, None), w')))
         | Inr result \<Rightarrow>
             if \<not> qrIsFolder result
             then ((0, Some (Errorf ''got invalid response. expected folder, found LibraryElements'' [])), w)
             else ((qrId result, None), w)))"

text \<open>
  Modelled from the spec: \<open>SetId\<close> of the element is not under src. The spec says that a
  previously provisioned record has "the storage-assigned id" re-attached "so the write
  becomes an update rather than an insert": the id is set on the element and in its data.
\<close>

definition SetId :: "LibraryElement \<Rightarrow> int \<Rightarrow> LibraryElement" where
  "SetId le i = le\<lparr>leId := i, leData := AList.update ''id'' (JInt i) (leData le)\<rparr>"

text \<open>
  \<open>saveLibraryElements\<close>: the pair \<open>(provisioningMetadata, error)\<close> and the world after.
  The map of references is built by \<open>getProvisionedLibraryElementssByPath\<close> alone, which
  reads a field through every pointer it stores, so a stored pointer is never nil:
  \<open>provisionedData\<close> is \<open>None\<close> exactly for a missing key.
\<close>

definition saveLibraryElements ::
  "env \<Rightarrow> 's service \<Rightarrow> FileReader \<Rightarrow> string \<Rightarrow> int \<Rightarrow> fileInfo \<Rightarrow> refs \<Rightarrow> 's world
     \<Rightarrow> (provisioningMetadata \<times> error option) \<times> 's world" where
  "saveLibraryElements E S fr path folderID fileInfo' provisionedLibraryElementsRefs w =
     (case resolveSymlink E fileInfo' path of
        (rfi, Some err) \<Rightarrow> ((zeroMetadata, Some err), w)
      | (None, None) \<Rightarrow> ((zeroMetadata, Some (Panic ''nil pointer dereference'')), w)
      | (Some resolvedFileInfo, None) \<Rightarrow>
     (let provisionedData = map_of provisionedLibraryElementsRefs path;
          alreadyProvisioned = (provisionedData \<noteq> None)
      in
     (case readLibraryElementsFromFile E fr path (fiModTime resolvedFileInfo) folderID of
        Inl err \<Rightarrow>
          ((zeroMetadata, None), emit (Log LvlError ''failed to load LibraryElements from '' (Some err)) w)
      | Inr jsonFile \<Rightarrow>
     (let upToDate = (case provisionedData of
                        None \<Rightarrow> alreadyProvisioned
                      | Some pd \<Rightarrow> checkSum jsonFile = CheckSum pd);
          panel = jfLibraryElements jsonFile;
          pm = \<lparr> uid = leUid (dtoLibraryElement panel),
                 identity = \<lparr> idFolderID = leFolderID (dtoLibraryElement panel),
                              idTitle = leTitle (dtoLibraryElement panel) \<rparr> \<rparr>
      in
      if upToDate then ((pm, None), w)
      else
        (let panel1 = (if leId (dtoLibraryElement panel) \<noteq> 0
                       then panel\<lparr>dtoLibraryElement :=
                              (dtoLibraryElement panel)
                                \<lparr>leId := 0,
                                 leData := AList.update ''id'' JNull (leData (dtoLibraryElement panel))\<rparr>\<rparr>
                       else panel);
             panel2 = (case provisionedData of
                         Some pd \<Rightarrow>
                           panel1\<lparr>dtoLibraryElement :=
                              SetId (dtoLibraryElement panel1) (LibraryElementsId pd)\<rparr>
                       | None \<Rightarrow> panel1)
         in
         if \<not> dbWriteAccessRestricted fr then
           (let w1 = emit (Log LvlDebug ''saving new LibraryElements'' None) w;
                dp = \<lparr> ExternalId = path, Name = cfgName (Cfg fr),
                       Updated = fiModTime resolvedFileInfo, CheckSum = checkSum jsonFile,
                       LibraryElementsId = 0 \<rparr>;
                (res, s') = SaveProvisionedLibraryElements S (store w1) panel2 dp;
                w2 = \<lparr>store = s', trace = trace w1 @ [CallSave panel2 dp]\<rparr>
            in (case res of
                  Inl err \<Rightarrow> ((pm, Some err), w2)
                | Inr saved \<Rightarrow> ((pm, None), w2)))
         else
           ((pm, None),
            emit (Log LvlWarn ''Not saving new LibraryElements due to restricted database access'' None) w))))))"

text \<open>\<open>getProvisionedLibraryElementssByPath\<close>: a later reference with the same path replaces an earlier one.\<close>

definition getProvisionedLibraryElementssByPath :: "'s service \<Rightarrow> 's \<Rightarrow> string \<Rightarrow> error + refs" where
  "getProvisionedLibraryElementssByPath S s name =
     (case GetProvisionedLibraryElementsData S s name of
        Inl err \<Rightarrow> Inl err
      | Inr arr \<Rightarrow> Inr (foldl (\<lambda>byPath pd. AList.update (ExternalId pd) pd byPath) [] arr))"

section \<open>The deletion pass\<close>

fun unprovisionLoop :: "'s service \<Rightarrow> int list \<Rightarrow> 's world \<Rightarrow> 's world" where
  "unprovisionLoop S [] w = w"
| "unprovisionLoop S (LibraryElementsID # rest) w =
     (let w1 = emit (Log LvlDebug ''unprovisioning provisioned LibraryElements. missing on disk'' None) w;
          (err, s') = UnprovisionLibraryElements S (store w1) LibraryElementsID;
          w2 = \<lparr>store = s', trace = trace w1 @ [CallUnprovision LibraryElementsID]\<rparr>
      in unprovisionLoop S rest (logIfErr ''failed to unprovision LibraryElements'' err w2))"

fun deleteLoop :: "'s service \<Rightarrow> int \<Rightarrow> int list \<Rightarrow> 's world \<Rightarrow> 's world" where
  "deleteLoop S orgID [] w = w"
| "deleteLoop S orgID (LibraryElementsID # rest) w =
     (let w1 = emit (Log LvlDebug ''deleting provisioned LibraryElements, missing on disk'' None) w;
          (err, s') = DeleteProvisionedLibraryElements S (store w1) LibraryElementsID orgID;
          w2 = \<lparr>store = s', trace = trace w1 @ [CallDelete LibraryElementsID orgID]\<rparr>
      in deleteLoop S orgID rest (logIfErr ''failed to delete LibraryElements'' err w2))"

definition LibraryElementssToDelete :: "refs \<Rightarrow> files \<Rightarrow> int list" where
  "LibraryElementssToDelete provisionedLibraryElementsRefs filesFoundOnDisk =
     map (\<lambda>(path, provisioningData). LibraryElementsId provisioningData)
       (filter (\<lambda>(path, provisioningData). map_of filesFoundOnDisk path = None)
          provisionedLibraryElementsRefs)"

definition handleMissingLibraryElementsFiles ::
  "'s service \<Rightarrow> FileReader \<Rightarrow> refs \<Rightarrow> files \<Rightarrow> 's world \<Rightarrow> 's world" where
  "handleMissingLibraryElementsFiles S fr provisionedLibraryElementsRefs filesFoundOnDisk w =
     (if cfgDisableDeletion (Cfg fr)
      then unprovisionLoop S
             (LibraryElementssToDelete provisionedLibraryElementsRefs filesFoundOnDisk) w
      else deleteLoop S (cfgOrgID (Cfg fr))
             (LibraryElementssToDelete provisionedLibraryElementsRefs filesFoundOnDisk) w)"


section \<open>Paths (path/filepath on Unix)\<close>

text \<open>
  The functions of Go's \<open>path/filepath\<close> the package calls, for the separator \<open>/\<close> and no
  volume name. \<open>Clean\<close> follows its documentation: multiple separators become one,
  every \<open>.\<close> element goes, every inner \<open>..\<close> goes with the element before it, a \<open>..\<close> that
  begins a rooted path goes, and the empty result is \<open>.\<close>. The elements kept so far are
  the list \<open>out\<close>; leading \<open>..\<close> elements of a relative path are the only \<open>..\<close> in it.
\<close>

fun splitPath :: "string \<Rightarrow> string list" where
  "splitPath [] = [[]]"
| "splitPath (c # cs) =
     (if c = CHR ''/'' then [] # splitPath cs
      else (case splitPath cs of
              [] \<Rightarrow> [[c]]
            | e # es \<Rightarrow> (c # e) # es))"

fun joinSep :: "string list \<Rightarrow> string" where
  "joinSep [] = []"
| "joinSep [e] = e"
| "joinSep (e # es) = e @ ''/'' @ joinSep es"

definition cleanStep :: "bool \<Rightarrow> string list \<Rightarrow> string \<Rightarrow> string list" where
  "cleanStep rooted out e =
     (if e = [] \<or> e = ''.'' then out
      else if e = ''..''
           then (if out \<noteq> [] \<and> last out \<noteq> ''..'' then butlast out
                 else if \<not> rooted then out @ [''..'']
                 else out)
      else out @ [e])"

definition Clean :: "string \<Rightarrow> string" where
  "Clean path =
     (if path = [] then ''.''
      else
        (let rooted = (hd path = CHR ''/'');
             out = foldl (cleanStep rooted) [] (splitPath path);
             s = (if rooted then ''/'' else []) @ joinSep out
         in if s = [] then ''.'' else s))"

text \<open>\<open>filepath.Join\<close> of two elements: empty elements are ignored, the rest is cleaned.\<close>

definition Join :: "string \<Rightarrow> string \<Rightarrow> string" where
  "Join a b =
     (if a \<noteq> [] then Clean (a @ ''/'' @ b)
      else if b \<noteq> [] then Clean b
      else [])"

text \<open>\<open>filepath.Dir\<close>: all but the last element, cleaned.\<close>

definition Dir :: "string \<Rightarrow> string" where
  "Dir path = Clean (rev (dropWhile (\<lambda>c. c \<noteq> CHR ''/'') (rev path)))"

text \<open>\<open>filepath.Base\<close>: the last element, after trailing separators are removed.\<close>

definition Base :: "string \<Rightarrow> string" where
  "Base path =
     (if path = [] then ''.''
      else
        (let stripped = rev (dropWhile (\<lambda>c. c = CHR ''/'') (rev path));
             lastElem = rev (takeWhile (\<lambda>c. c \<noteq> CHR ''/'') (rev stripped))
         in if lastElem = [] then ''/'' else lastElem))"

text \<open>\<open>strings.HasPrefix\<close> and \<open>strings.HasSuffix\<close>.\<close>

definition HasPrefix :: "string \<Rightarrow> string \<Rightarrow> bool" where
  "HasPrefix s p = (take (length p) s = p)"

definition HasSuffix :: "string \<Rightarrow> string \<Rightarrow> bool" where
  "HasSuffix s x = (length x \<le> length s \<and> drop (length s - length x) s = x)"

section \<open>The directory walk\<close>

text \<open>
  \<open>validateWalkablePath\<close> returns \<open>(isValid, error)\<close>; the error is \<open>filepath.SkipDir\<close> for a
  directory whose name starts with a dot.
\<close>

definition validateWalkablePath :: "fileInfo \<Rightarrow> bool \<times> error option" where
  "validateWalkablePath fileInfo' =
     (if fiIsDir fileInfo'
      then (if HasPrefix (fiName fileInfo') ''.'' then (False, Some SkipDir) else (False, None))
      else if \<not> HasSuffix (fiName fileInfo') ''.json'' then (False, None)
      else (True, None))"

text \<open>
  The function \<open>createWalkFn\<close> returns: it takes the map with the path, the \<open>FileInfo\<close>
  (nil when \<open>Lstat\<close> failed) and the error of the walk, and returns its error and the map.
\<close>

definition createWalkFn :: "files \<Rightarrow> string \<Rightarrow> fileInfo option \<Rightarrow> error option \<Rightarrow> error option \<times> files" where
  "createWalkFn filesOnDisk path fileInfo' err =
     (case err of
        Some e \<Rightarrow> (Some e, filesOnDisk)
      | None \<Rightarrow>
          (case fileInfo' of
             None \<Rightarrow> (Some (Panic ''nil pointer dereference''), filesOnDisk)
           | Some fi \<Rightarrow>
               (case validateWalkablePath fi of
                  (isValid, err') \<Rightarrow>
                    if \<not> isValid then (err', filesOnDisk)
                    else (None, AList.update path fi filesOnDisk))))"

text \<open>
  \<open>filepath.Walk\<close> with the function of \<open>createWalkFn\<close>, as Go's library defines it.
  \<open>walk\<close> visits one entry whose \<open>Lstat\<close> succeeded: a non-directory is handed to the
  function; a directory has its names read first, is handed to the function with the
  error of that read, and is left when either failed or the function returned an error
  (\<open>SkipDir\<close> included); otherwise \<open>walkNames\<close> visits its entries in turn. There an entry
  whose \<open>Lstat\<close> fails is handed to the function with the error; an error from an entry
  ends the walk of the directory, except \<open>SkipDir\<close> from a directory entry (or from an
  entry whose \<open>Lstat\<close> failed), which only skips that entry.
\<close>

fun walk :: "string \<Rightarrow> fsNode \<Rightarrow> files \<Rightarrow> error option \<times> files"
  and walkNames :: "string \<Rightarrow> fsNode list \<Rightarrow> files \<Rightarrow> error option \<times> files" where
  "walk path (LstatError n e) filesOnDisk = createWalkFn filesOnDisk path None (Some e)"
| "walk path (FileNode n t) filesOnDisk =
     createWalkFn filesOnDisk path (nodeInfo (FileNode n t)) None"
| "walk path (DirNode n t err names) filesOnDisk =
     (case createWalkFn filesOnDisk path (nodeInfo (DirNode n t err names)) err of
        (err1, files1) \<Rightarrow>
          if err \<noteq> None \<or> err1 \<noteq> None then (err1, files1)
          else walkNames path names files1)"
| "walkNames path [] filesOnDisk = (None, filesOnDisk)"
| "walkNames path (entry # rest) filesOnDisk =
     (case walk (Join path (nodeName entry)) entry filesOnDisk of
        (err, files1) \<Rightarrow>
          if err \<noteq> None \<and> ((nodeInfo entry \<noteq> None \<and> \<not> nodeIsDir entry) \<or> err \<noteq> Some SkipDir)
          then (err, files1)
          else walkNames path rest files1)"

definition Walk :: "string \<Rightarrow> fsNode \<Rightarrow> files \<Rightarrow> error option \<times> files" where
  "Walk root node filesOnDisk =
     (case walk root node filesOnDisk of
        (err, files1) \<Rightarrow> if err = Some SkipDir then (None, files1) else (err, files1))"


section \<open>The placement and save passes\<close>

text \<open>
  Flat mode. \<open>walkDisk\<close> calls \<open>storeLibraryElementsInFolder\<close>; the pass of that role under
  src is \<open>storeDashboardsInFolder\<close> (its comment names it \<open>storeLibraryElementssInFolder\<close>),
  whose per-file save step \<open>saveDashboard\<close> is read as \<open>saveLibraryElements\<close>, the one save
  step of the package. The folder is resolved once; a file whose save step returns an
  error is logged and skipped before \<open>track\<close>.
\<close>

fun storeDashboardsInFolderLoop ::
  "env \<Rightarrow> 's service \<Rightarrow> FileReader \<Rightarrow> int \<Rightarrow> files \<Rightarrow> refs \<Rightarrow> usageTracker \<Rightarrow> 's world
     \<Rightarrow> usageTracker \<times> 's world" where
  "storeDashboardsInFolderLoop E S fr folderID [] dashboardRefs t w = (t, w)"
| "storeDashboardsInFolderLoop E S fr folderID ((path, fileInfo') # rest) dashboardRefs t w =
     (case saveLibraryElements E S fr path folderID fileInfo' dashboardRefs w of
        ((provisioningMetadata', Some err), w1) \<Rightarrow>
          storeDashboardsInFolderLoop E S fr folderID rest dashboardRefs t
            (emit (Log LvlError ''failed to save dashboard'' (Some err)) w1)
      | ((provisioningMetadata', None), w1) \<Rightarrow>
          storeDashboardsInFolderLoop E S fr folderID rest dashboardRefs
            (track t provisioningMetadata') w1)"

definition storeDashboardsInFolder ::
  "env \<Rightarrow> 's service \<Rightarrow> FileReader \<Rightarrow> files \<Rightarrow> refs \<Rightarrow> usageTracker \<Rightarrow> 's world
     \<Rightarrow> error option \<times> usageTracker \<times> 's world" where
  "storeDashboardsInFolder E S fr filesFoundOnDisk dashboardRefs t w =
     (case getOrCreateFolderID E S (Cfg fr) (cfgFolder (Cfg fr)) w of
        ((folderID, err), w1) \<Rightarrow>
          if (case err of None \<Rightarrow> False | Some e \<Rightarrow> \<not> errorsIs e ErrFolderNameMissing)
          then (err, t, w1)
          else (case storeDashboardsInFolderLoop E S fr folderID filesFoundOnDisk dashboardRefs t w1 of
                  (t', w2) \<Rightarrow> (None, t', w2)))"

text \<open>
  Mirrored mode. The folder name of a file (the first lines of the loop body of
  \<open>storeLibraryElementsInFoldersFromFileStructure\<close>): empty when the file's directory is
  the resolved root, the base name of that directory otherwise.
\<close>

definition folderNameFromFileStructure :: "string \<Rightarrow> string \<Rightarrow> string" where
  "folderNameFromFileStructure resolvedPath' path =
     (let LibraryElementsFolder = Dir path
      in if LibraryElementsFolder \<noteq> resolvedPath' then Base LibraryElementsFolder else [])"

text \<open>
  The folder is resolved per file, and an error of that (other than the missing name)
  returns from the pass at once; \<open>track\<close> comes before the error of the save step is
  looked at.
\<close>

fun storeLibraryElementsInFoldersFromFileStructure ::
  "env \<Rightarrow> 's service \<Rightarrow> FileReader \<Rightarrow> files \<Rightarrow> refs \<Rightarrow> string \<Rightarrow> usageTracker \<Rightarrow> 's world
     \<Rightarrow> error option \<times> usageTracker \<times> 's world" where
  "storeLibraryElementsInFoldersFromFileStructure E S fr [] dashboardRefs resolvedPath' t w =
     (None, t, w)"
| "storeLibraryElementsInFoldersFromFileStructure E S fr ((path, fileInfo') # rest)
       dashboardRefs resolvedPath' t w =
     (let folderName = folderNameFromFileStructure resolvedPath' path
      in (case getOrCreateFolderID E S (Cfg fr) folderName w of
            ((folderID, err), w1) \<Rightarrow>
              (case (case err of
                       None \<Rightarrow> None
                     | Some e \<Rightarrow> if \<not> errorsIs e ErrFolderNameMissing then Some e else None) of
                 Some e \<Rightarrow>
                   (Some (Wrapf ''can't provision folder %q from file system structure: %w''
                            [folderName] e), t, w1)
               | None \<Rightarrow>
                   (case saveLibraryElements E S fr path folderID fileInfo' dashboardRefs w1 of
                      ((provisioningMetadata', err'), w2) \<Rightarrow>
                        storeLibraryElementsInFoldersFromFileStructure E S fr rest dashboardRefs
                          resolvedPath' (track t provisioningMetadata')
                          (logIfErr ''failed to save library elements'' err' w2)))))"

section \<open>One scan\<close>

definition IsNotExist :: "error \<Rightarrow> bool" where
  "IsNotExist err = (err = ErrNotExist)"

text \<open>\<open>resolvedPath\<close>: the absolute, symlink-free root, or the configured path when that is empty.\<close>

definition resolvedPath :: "env \<Rightarrow> FileReader \<Rightarrow> 's world \<Rightarrow> string \<times> 's world" where
  "resolvedPath E fr w =
     (let w1 = (case osStat E (Path fr) of
                  Some err \<Rightarrow> if IsNotExist err
                              then emit (Log LvlError ''Cannot read directory'' (Some err)) w else w
                | None \<Rightarrow> w);
          (path1, err1) = (case filepathAbs E (Path fr) of
                             Inl e \<Rightarrow> ([], Some e) | Inr p \<Rightarrow> (p, None));
          w2 = logIfErr ''Could not create absolute path'' err1 w1;
          (path2, err2) = (case filepathEvalSymlinks E path1 of
                             Inl e \<Rightarrow> ([], Some e) | Inr p \<Rightarrow> (p, None));
          w3 = logIfErr ''Failed to read content of symlinked path'' err2 w2
      in if path2 = []
         then (Path fr,
               emit (Log LvlInfo ''falling back to original path due to EvalSymlink/Abs failure'' None) w3)
         else (path2, w3))"

text \<open>
  \<open>walkDisk\<close>: the error it returns, the reader (its usage tracker replaced only when the
  scan returns no error) and the world after. The write-restriction flag is read from
  the reader and does not change during the scan. Each pass receives the map it ranges
  over in the order of the visit.
\<close>

definition walkDisk ::
  "env \<Rightarrow> 's service \<Rightarrow> FileReader \<Rightarrow> 's world \<Rightarrow> error option \<times> FileReader \<times> 's world" where
  "walkDisk E S fr w =
     (case resolvedPath E fr (emit (Log LvlDebug ''Start walking disk'' None) w) of
        (resolvedPath', w1) \<Rightarrow>
     (case osStat E resolvedPath' of
        Some err \<Rightarrow> (Some err, fr, w1)
      | None \<Rightarrow>
     (case getProvisionedLibraryElementssByPath S (store w1) (cfgName (Cfg fr)) of
        Inl err \<Rightarrow> (Some err, fr, w1)
      | Inr provisionedLibraryElementsRefs \<Rightarrow>
     (case Walk resolvedPath' (walkTree E resolvedPath') [] of
        (Some err, filesFoundOnDisk) \<Rightarrow> (Some err, fr, w1)
      | (None, filesFoundOnDisk) \<Rightarrow>
     (let w2 = handleMissingLibraryElementsFiles S fr (rangeRefs E provisionedLibraryElementsRefs)
                 filesFoundOnDisk w1
      in
     (case (if FoldersFromFilesStructure fr
            then storeLibraryElementsInFoldersFromFileStructure E S fr (rangeFiles E filesFoundOnDisk)
                   provisionedLibraryElementsRefs resolvedPath' newUsageTracker w2
            else storeDashboardsInFolder E S fr (rangeFiles E filesFoundOnDisk)
                   provisionedLibraryElementsRefs newUsageTracker w2) of
        (Some err, t, w3) \<Rightarrow> (Some err, fr, w3)
      | (None, t, w3) \<Rightarrow> (None, fr\<lparr>frUsageTracker := t\<rparr>, w3)))))))"


section \<open>The storage service behind the interface\<close>

text \<open>
  Modelled from the spec: the implementation of the storage service is not under src.
  The spec keeps one provisioning reference per (source name, external path), "read at
  the start of each scan, written/deleted as a side effect of reconciliation": a save
  writes the reference of its source and path (its record id is the id of the record
  saved, a fresh one when the DTO carries none), a delete and an unprovision remove the
  references of the record id, and the references of a source are those that carry its
  name. A folder is found by its slug and organisation once it has been saved. Every
  operation may fail (\<open>faults\<close> says when, from its arguments) and then changes nothing.
\<close>

record storage =
  stRefs :: "LibraryElementsProvisioning list"
  stFolders :: "((string \<times> int) \<times> int) list"
  stNextId :: int

record faults =
  failGet :: "string \<Rightarrow> error option"
  failSave :: "string \<Rightarrow> error option"
  failDelete :: "int \<Rightarrow> error option"
  failUnprovision :: "int \<Rightarrow> error option"
  failSaveFolder :: "string \<Rightarrow> error option"
  failQuery :: "string \<Rightarrow> error option"

definition noFaults :: faults where
  "noFaults = \<lparr> failGet = (\<lambda>n. None), failSave = (\<lambda>p. None), failDelete = (\<lambda>i. None),
                 failUnprovision = (\<lambda>i. None), failSaveFolder = (\<lambda>t. None),
                 failQuery = (\<lambda>s. None) \<rparr>"

definition storageGet :: "faults \<Rightarrow> storage \<Rightarrow> string \<Rightarrow> error + LibraryElementsProvisioning list" where
  "storageGet F s name =
     (case failGet F name of
        Some e \<Rightarrow> Inl e
      | None \<Rightarrow> Inr (filter (\<lambda>r. Name r = name) (stRefs s)))"

definition storageSave ::
  "faults \<Rightarrow> storage \<Rightarrow> SaveLibraryElementDTO \<Rightarrow> LibraryElementsProvisioning
     \<Rightarrow> (error + LibraryElement) \<times> storage" where
  "storageSave F s dto dp =
     (case failSave F (ExternalId dp) of
        Some e \<Rightarrow> (Inl e, s)
      | None \<Rightarrow>
          (let i = (if leId (dtoLibraryElement dto) \<noteq> 0 then leId (dtoLibraryElement dto)
                    else stNextId s)
           in (Inr ((dtoLibraryElement dto)\<lparr>leId := i\<rparr>),
               s\<lparr> stRefs := filter (\<lambda>r. \<not> (Name r = Name dp \<and> ExternalId r = ExternalId dp)) (stRefs s)
                              @ [dp\<lparr>LibraryElementsId := i\<rparr>],
                  stNextId := max (stNextId s) i + 1 \<rparr>)))"

definition storageDelete :: "faults \<Rightarrow> storage \<Rightarrow> int \<Rightarrow> int \<Rightarrow> error option \<times> storage" where
  "storageDelete F s i orgID =
     (case failDelete F i of
        Some e \<Rightarrow> (Some e, s)
      | None \<Rightarrow> (None, s\<lparr>stRefs := filter (\<lambda>r. LibraryElementsId r \<noteq> i) (stRefs s)\<rparr>))"

definition storageUnprovision :: "faults \<Rightarrow> storage \<Rightarrow> int \<Rightarrow> error option \<times> storage" where
  "storageUnprovision F s i =
     (case failUnprovision F i of
        Some e \<Rightarrow> (Some e, s)
      | None \<Rightarrow> (None, s\<lparr>stRefs := filter (\<lambda>r. LibraryElementsId r \<noteq> i) (stRefs s)\<rparr>))"

definition storageSaveFolder ::
  "(string \<Rightarrow> string) \<Rightarrow> faults \<Rightarrow> storage \<Rightarrow> SaveLibraryElementDTO
     \<Rightarrow> (error + LibraryElement) \<times> storage" where
  "storageSaveFolder slugify F s dto =
     (case failSaveFolder F (leTitle (dtoLibraryElement dto)) of
        Some e \<Rightarrow> (Inl e, s)
      | None \<Rightarrow>
          (Inr ((dtoLibraryElement dto)\<lparr>leId := stNextId s\<rparr>),
           s\<lparr> stFolders := AList.update (slugify (leTitle (dtoLibraryElement dto)), dtoOrgId dto)
                              (stNextId s) (stFolders s),
              stNextId := stNextId s + 1 \<rparr>))"

definition storageQuery :: "faults \<Rightarrow> storage \<Rightarrow> string \<Rightarrow> int \<Rightarrow> error + queryResult" where
  "storageQuery F s slug orgID =
     (case failQuery F slug of
        Some e \<Rightarrow> Inl e
      | None \<Rightarrow>
          (case map_of (stFolders s) (slug, orgID) of
             None \<Rightarrow> Inl ErrLibraryElementsNotFound
           | Some i \<Rightarrow> Inr \<lparr>qrId = i, qrIsFolder = True\<rparr>))"

definition storageService :: "(string \<Rightarrow> string) \<Rightarrow> faults \<Rightarrow> storage service" where
  "storageService slugify F =
     \<lparr> GetProvisionedLibraryElementsData = storageGet F,
       SaveProvisionedLibraryElements = storageSave F,
       DeleteProvisionedLibraryElements = storageDelete F,
       UnprovisionLibraryElements = storageUnprovision F,
       SaveFolderForProvisionedLibraryElements = storageSaveFolder slugify F,
       GetLibraryElementsQuery = storageQuery F \<rparr>"


section \<open>Notions used in the statements\<close>

text \<open>
  The metadata \<open>saveLibraryElements\<close> builds from a loaded file (its uid and its
  title-and-folder identity), and the metadata it returns for a file on disk: the zero
  value when the symlink does not resolve or the file does not load.
\<close>

definition metadataOf :: "LibraryElementsJSONFile \<Rightarrow> provisioningMetadata" where
  "metadataOf jsonFile =
     \<lparr> uid = leUid (dtoLibraryElement (jfLibraryElements jsonFile)),
       identity = \<lparr> idFolderID = leFolderID (dtoLibraryElement (jfLibraryElements jsonFile)),
                    idTitle = leTitle (dtoLibraryElement (jfLibraryElements jsonFile)) \<rparr> \<rparr>"


text \<open>
  A file is in step with its reference when the map of references has an entry for its
  path whose stored checksum is the checksum of the file as loaded.
\<close>

definition inStep :: "refs \<Rightarrow> string \<Rightarrow> LibraryElementsJSONFile \<Rightarrow> bool" where
  "inStep rs path jsonFile =
     (case map_of rs path of
        None \<Rightarrow> False
      | Some pd \<Rightarrow> CheckSum pd = checkSum jsonFile)"

text \<open>An error of folder resolution the passes do not return: none, or the missing name.\<close>

definition tolerated :: "error option \<Rightarrow> bool" where
  "tolerated err = (case err of None \<Rightarrow> True | Some e \<Rightarrow> errorsIs e ErrFolderNameMissing)"

text \<open>The root \<open>resolvedPath\<close> returns (its log lines apart).\<close>

definition resolvedRoot :: "env \<Rightarrow> FileReader \<Rightarrow> string" where
  "resolvedRoot E fr =
     (let path1 = (case filepathAbs E (Path fr) of Inl e \<Rightarrow> [] | Inr p \<Rightarrow> p);
          path2 = (case filepathEvalSymlinks E path1 of Inl e \<Rightarrow> [] | Inr p \<Rightarrow> p)
      in if path2 = [] then Path fr else path2)"

text \<open>
  The world \<open>walkDisk\<close> has reached after its deletion pass (step 4), and the placement pass
  (steps 5 and 6) it runs from there, for the references and the on-disk map that steps 2
  and 3 gave.
\<close>

definition afterDeletion ::
  "env \<Rightarrow> 's service \<Rightarrow> FileReader \<Rightarrow> refs \<Rightarrow> files \<Rightarrow> 's world \<Rightarrow> 's world" where
  "afterDeletion E S fr rs filesFoundOnDisk w =
     handleMissingLibraryElementsFiles S fr (rangeRefs E rs) filesFoundOnDisk
       (snd (resolvedPath E fr (emit (Log LvlDebug ''Start walking disk'' None) w)))"

definition placementPass ::
  "env \<Rightarrow> 's service \<Rightarrow> FileReader \<Rightarrow> refs \<Rightarrow> files \<Rightarrow> 's world
     \<Rightarrow> error option \<times> usageTracker \<times> 's world" where
  "placementPass E S fr rs filesFoundOnDisk w =
     (if FoldersFromFilesStructure fr
      then storeLibraryElementsInFoldersFromFileStructure E S fr (rangeFiles E filesFoundOnDisk) rs
             (resolvedRoot E fr) newUsageTracker (afterDeletion E S fr rs filesFoundOnDisk w)
      else storeDashboardsInFolder E S fr (rangeFiles E filesFoundOnDisk) rs newUsageTracker
             (afterDeletion E S fr rs filesFoundOnDisk w))"

text \<open>The paths of the save calls of a trace, in order.\<close>

fun savedPath :: "event \<Rightarrow> string list" where
  "savedPath (CallSave dto dp) = [ExternalId dp]"
| "savedPath ev = []"

definition savedPaths :: "event list \<Rightarrow> string list" where
  "savedPaths tr = concat (map savedPath tr)"

text \<open>
  The files a walk is to collect, in the words of the spec: below a directory whose name
  starts with a dot, nothing; a directory itself, never; a file, when its name ends in
  \<open>.json\<close>. (A directory whose names cannot be read has no entries to offer.) The path of
  an entry is the path of its directory joined with its name.
\<close>

fun definitionFiles :: "string \<Rightarrow> fsNode \<Rightarrow> files"
  and definitionFilesIn :: "string \<Rightarrow> fsNode list \<Rightarrow> files" where
  "definitionFiles path (LstatError n e) = []"
| "definitionFiles path (FileNode n t) =
     (if HasSuffix n ''.json'' then [(path, \<lparr>fiName = n, fiIsDir = False, fiModTime = t\<rparr>)] else [])"
| "definitionFiles path (DirNode n t err names) =
     (if HasPrefix n ''.'' \<or> err \<noteq> None then [] else definitionFilesIn path names)"
| "definitionFilesIn path [] = []"
| "definitionFilesIn path (entry # rest) =
     definitionFiles (Join path (nodeName entry)) entry @ definitionFilesIn path rest"




definition rootedPath :: "string list \<Rightarrow> string" where
  "rootedPath elems = ''/'' @ joinSep elems"


section \<open>Concrete inputs\<close>

text \<open>Two provider entries, used at concrete inputs below.\<close>

definition providerEntry :: "string \<Rightarrow> string \<Rightarrow> configs" where
  "providerEntry n p =
     \<lparr> csName = n, csType = ''file'', csOrgID = 1, csFolder = [], csFolderUID = [],
       csEditable = False, csOptions = [(''path'', JString p)], csDisableDeletion = False,
       csUpdateIntervalSeconds = 10, csAllowUIUpdates = False \<rparr>"

text \<open>
  A small installation: the source \<open>A\<close> reads \<open>/defs\<close>, which holds \<open>a.json\<close>, a directory
  \<open>sub\<close> with \<open>b.json\<close>, a hidden directory \<open>.git\<close> with \<open>c.json\<close>, and \<open>notes.txt\<close>. The
  content of a file is its path in braces; \<open>/defs/bad.json\<close> is not JSON, and the
  symlink \<open>/defs/loop.json\<close> does not resolve. An element has the title of its content
  and the uid \<open>u\<close> followed by it.
\<close>

definition exEntries :: "fsNode list" where
  "exEntries =
     [ FileNode ''a.json'' 10,
       DirNode ''sub'' 2 None [FileNode ''b.json'' 20],
       DirNode ''.git'' 3 None [FileNode ''c.json'' 30],
       FileNode ''notes.txt'' 40 ]"

definition exTree :: fsNode where
  "exTree = DirNode ''defs'' 1 None exEntries"

definition exEnv :: env where
  "exEnv =
     \<lparr> osStat = (\<lambda>p. None),
       osLstat = (\<lambda>p. if p = [] then Inl ErrNotExist
                       else Inr \<lparr>fiName = Base p, fiIsDir = False, fiModTime = 50\<rparr>),
       filepathAbs = (\<lambda>p. Inr p),
       filepathEvalSymlinks = (\<lambda>p. if p = ''/defs/loop.json''
                                     then Inl (OtherError ''too many links'') else Inr p),
       osReadAll = (\<lambda>p. Inr (''{'' @ p @ ''}'')),
       Md5SumString = (\<lambda>s. Inr (''md5 '' @ s)),
       NewJson = (\<lambda>s. if s = ''{/defs/bad.json}'' then Inl (OtherError ''invalid character'')
                        else Inr [(''title'', JString s)]),
       NewLibraryElementFromJson =
         (\<lambda>j. case map_of j ''title'' of
                 Some (JString s) \<Rightarrow>
                   \<lparr>leId = 0, leUid = ''u'' @ s, leTitle = s, leOrgID = 0, leFolderID = 0, leData = j\<rparr>
               | _ \<Rightarrow> \<lparr>leId = 0, leUid = [], leTitle = [], leOrgID = 0, leFolderID = 0, leData = j\<rparr>),
       NewLibraryElementFolder =
         (\<lambda>n. \<lparr>leId = 0, leUid = [], leTitle = n, leOrgID = 0, leFolderID = 0, leData = []\<rparr>),
       SlugifyTitle = (\<lambda>n. n),
       walkTree = (\<lambda>root. exTree),
       rangeFiles = (\<lambda>fs. fs),
       rangeRefs = (\<lambda>rs. rs) \<rparr>"

definition exCfg :: config where
  "exCfg = toConfig (providerEntry ''A'' ''/defs'')"

definition exReader :: "bool \<Rightarrow> bool \<Rightarrow> FileReader" where
  "exReader mirrored restricted =
     \<lparr> Cfg = exCfg, Path = ''/defs'', FoldersFromFilesStructure = mirrored,
       frUsageTracker = newUsageTracker, dbWriteAccessRestricted = restricted \<rparr>"

definition exRef :: "string \<Rightarrow> string \<Rightarrow> int \<Rightarrow> LibraryElementsProvisioning" where
  "exRef p c i = \<lparr>ExternalId = p, Name = ''A'', Updated = 5, CheckSum = c, LibraryElementsId = i\<rparr>"

definition exStorage :: "LibraryElementsProvisioning list \<Rightarrow> storage" where
  "exStorage rs = \<lparr>stRefs = rs, stFolders = [], stNextId = 100\<rparr>"

definition exWorld :: "LibraryElementsProvisioning list \<Rightarrow> storage world" where
  "exWorld rs = \<lparr>store = exStorage rs, trace = []\<rparr>"

definition exService :: "faults \<Rightarrow> storage service" where
  "exService F = storageService (\<lambda>n. n) F"

definition exInfo :: "string \<Rightarrow> int \<Rightarrow> fileInfo" where
  "exInfo n t = \<lparr>fiName = n, fiIsDir = False, fiModTime = t\<rparr>"

text \<open>What loading the file at a path gives in this installation.\<close>

definition exLoaded :: "string \<Rightarrow> int \<Rightarrow> int \<Rightarrow> LibraryElementsJSONFile" where
  "exLoaded p t folderID =
     \<lparr> jfLibraryElements =
         \<lparr> dtoLibraryElement =
             \<lparr> leId = 0, leUid = ''u{'' @ p @ ''}'', leTitle = ''{'' @ p @ ''}'', leOrgID = 1,
               leFolderID = folderID, leData = [(''title'', JString (''{'' @ p @ ''}''))] \<rparr>,
           dtoUpdatedAt = t, dtoOverwrite = True, dtoOrgId = 1 \<rparr>,
       checkSum = ''md5 {'' @ p @ ''}'', lastModified = t \<rparr>"

text \<open>A storage whose save of \<open>/defs/a.json\<close> fails, and one whose folder query for \<open>sub\<close> fails.\<close>

definition exFaultySave :: faults where
  "exFaultySave = noFaults\<lparr>failSave :=
     (\<lambda>p. if p = ''/defs/a.json'' then Some (OtherError ''database is locked'') else None)\<rparr>"

definition exFaultyQuery :: faults where
  "exFaultyQuery = noFaults\<lparr>failQuery :=
     (\<lambda>s. if s = ''sub'' then Some (OtherError ''database is locked'') else None)\<rparr>"

text \<open>The same installation with the file map visited in the opposite order.\<close>

definition exEnvRev :: env where
  "exEnvRev = exEnv\<lparr>rangeFiles := rev\<rparr>"

text \<open>The same installation when the root cannot be read.\<close>

definition exEnvNoRoot :: env where
  "exEnvNoRoot = exEnv\<lparr>osStat := (\<lambda>p. Some ErrNotExist)\<rparr>"




section \<open>Provider names in one file are unique\<close>







section \<open>The deletion pass\<close>

lemma trace_emit: "trace (emit e w) = trace w @ [e]"
  by (simp add: emit_def)

lemma store_emit: "store (emit e w) = store w"
  by (simp add: emit_def)

lemma trace_logIfErr: "filter isMutation (trace (logIfErr msg err w)) = filter isMutation (trace w)"
  by (cases err) (simp_all add: emit_def)

lemma unprovisionLoop_calls:
  "filter isMutation (trace (unprovisionLoop S ids w))
     = filter isMutation (trace w) @ map CallUnprovision ids"
proof (induction ids arbitrary: w)
  case Nil
  then show ?case by simp
next
  case (Cons i ids)
  show ?case
    by (simp add: Cons.IH trace_logIfErr emit_def split: prod.splits)
qed

lemma deleteLoop_calls:
  "filter isMutation (trace (deleteLoop S orgID ids w))
     = filter isMutation (trace w) @ map (\<lambda>i. CallDelete i orgID) ids"
proof (induction ids arbitrary: w)
  case Nil
  then show ?case by simp
next
  case (Cons i ids)
  show ?case
    by (simp add: Cons.IH trace_logIfErr emit_def split: prod.splits)
qed

lemma LibraryElementssToDelete_absent:
  "LibraryElementssToDelete rs fs
     = map (\<lambda>r. LibraryElementsId (snd r)) (filter (\<lambda>r. fst r \<notin> fst ` set fs) rs)"
  by (simp add: LibraryElementssToDelete_def map_of_eq_None_iff case_prod_unfold)

text \<open>
  C2. The mutating storage calls the deletion pass adds to the trace are exactly one call
  per provisioned reference whose path is not a key of the on-disk file map, in the
  order the references are visited, with that reference's record id: all of them
  \<open>UnprovisionLibraryElements\<close> when \<open>DisableDeletion\<close> is set, all of them
  \<open>DeleteProvisionedLibraryElements\<close> (with the organisation of the source) when it is
  not. No call comes from a reference whose path is on disk, and no other mutating call
  is made, whatever the results of the calls are.
\<close>

theorem handleMissingLibraryElementsFiles_calls:
  "filter isMutation (trace (handleMissingLibraryElementsFiles S fr rs fs w))
     = filter isMutation (trace w)
       @ map (\<lambda>r. if cfgDisableDeletion (Cfg fr)
                   then CallUnprovision (LibraryElementsId (snd r))
                   else CallDelete (LibraryElementsId (snd r)) (cfgOrgID (Cfg fr)))
           (filter (\<lambda>r. fst r \<notin> fst ` set fs) rs)"
  by (simp add: handleMissingLibraryElementsFiles_def unprovisionLoop_calls deleteLoop_calls
        LibraryElementssToDelete_absent comp_def)

theorem handleMissingLibraryElementsFiles_calls_witness:
  "filter isMutation (trace (handleMissingLibraryElementsFiles (exService noFaults) (exReader False False)
      [(''/defs/gone.json'', exRef ''/defs/gone.json'' ''x'' 7),
       (''/defs/a.json'', exRef ''/defs/a.json'' ''y'' 8)]
      [(''/defs/a.json'', \<lparr>fiName = ''a.json'', fiIsDir = False, fiModTime = 10\<rparr>)]
      (exWorld [])))
     = [CallDelete 7 1]
   \<and> filter isMutation (trace (handleMissingLibraryElementsFiles (exService noFaults)
      ((exReader False False)\<lparr>Cfg := exCfg\<lparr>cfgDisableDeletion := True\<rparr>\<rparr>)
      [(''/defs/gone.json'', exRef ''/defs/gone.json'' ''x'' 7),
       (''/defs/a.json'', exRef ''/defs/a.json'' ''y'' 8)]
      [(''/defs/a.json'', \<lparr>fiName = ''a.json'', fiIsDir = False, fiModTime = 10\<rparr>)]
      (exWorld [])))
     = [CallUnprovision 7]"
  unfolding handleMissingLibraryElementsFiles_calls
  by (simp add: exReader_def exCfg_def toConfig_def providerEntry_def exRef_def exWorld_def)


section \<open>The save step\<close>

lemma track_zeroMetadata: "track t zeroMetadata = t"
  by (simp add: track_def zeroMetadata_def Exists_def)



lemma saveLibraryElements_symlink_error:
  assumes "snd (resolveSymlink E fi path) = Some err"
  shows "saveLibraryElements E S fr path folderID fi rs w = ((zeroMetadata, Some err), w)"
  using assms
  by (cases "resolveSymlink E fi path") (simp add: saveLibraryElements_def split: option.splits)

lemma saveLibraryElements_load_error:
  assumes "resolveSymlink E fi path = (Some rfi, None)"
      and "readLibraryElementsFromFile E fr path (fiModTime rfi) folderID = Inl err"
  shows "saveLibraryElements E S fr path folderID fi rs w
           = ((zeroMetadata, None),
              emit (Log LvlError ''failed to load LibraryElements from '' (Some err)) w)"
  using assms by (simp add: saveLibraryElements_def)

lemma saveLibraryElements_in_step:
  assumes "resolveSymlink E fi path = (Some rfi, None)"
      and "readLibraryElementsFromFile E fr path (fiModTime rfi) folderID = Inr jf"
      and "inStep rs path jf"
  shows "saveLibraryElements E S fr path folderID fi rs w = ((metadataOf jf, None), w)"
  using assms
  by (auto simp add: saveLibraryElements_def inStep_def metadataOf_def Let_def split: option.splits)

lemma saveLibraryElements_restricted:
  assumes "resolveSymlink E fi path = (Some rfi, None)"
      and "readLibraryElementsFromFile E fr path (fiModTime rfi) folderID = Inr jf"
      and "\<not> inStep rs path jf"
      and "dbWriteAccessRestricted fr"
  shows "saveLibraryElements E S fr path folderID fi rs w
           = ((metadataOf jf, None),
              emit (Log LvlWarn ''Not saving new LibraryElements due to restricted database access'' None) w)"
  using assms
  by (auto simp add: saveLibraryElements_def inStep_def metadataOf_def Let_def split: option.splits)

lemma saveLibraryElements_saves:
  assumes "resolveSymlink E fi path = (Some rfi, None)"
      and "readLibraryElementsFromFile E fr path (fiModTime rfi) folderID = Inr jf"
      and "\<not> inStep rs path jf"
      and "\<not> dbWriteAccessRestricted fr"
  shows "\<exists>dto res s'.
           SaveProvisionedLibraryElements S (store w) dto
             \<lparr> ExternalId = path, Name = cfgName (Cfg fr), Updated = fiModTime rfi,
               CheckSum = checkSum jf, LibraryElementsId = 0 \<rparr> = (res, s')
         \<and> saveLibraryElements E S fr path folderID fi rs w
           = ((metadataOf jf, case res of Inl e \<Rightarrow> Some e | Inr saved \<Rightarrow> None),
              \<lparr> store = s',
                trace = trace w @
                  [Log LvlDebug ''saving new LibraryElements'' None,
                   CallSave dto \<lparr> ExternalId = path, Name = cfgName (Cfg fr), Updated = fiModTime rfi,
                                  CheckSum = checkSum jf, LibraryElementsId = 0 \<rparr>] \<rparr>)"
  using assms
  by (auto simp add: saveLibraryElements_def inStep_def metadataOf_def Let_def emit_def
        split: option.splits prod.splits sum.splits)


section \<open>One iteration of each pass\<close>

lemma flat_step_ok:
  assumes "saveLibraryElements E S fr path folderID fi rs w = ((pm, None), w1)"
  shows "storeDashboardsInFolderLoop E S fr folderID ((path, fi) # rest) rs t w
           = storeDashboardsInFolderLoop E S fr folderID rest rs (track t pm) w1"
  using assms by simp

lemma flat_step_error:
  assumes "saveLibraryElements E S fr path folderID fi rs w = ((pm, Some err), w1)"
  shows "storeDashboardsInFolderLoop E S fr folderID ((path, fi) # rest) rs t w
           = storeDashboardsInFolderLoop E S fr folderID rest rs t
               (emit (Log LvlError ''failed to save dashboard'' (Some err)) w1)"
  using assms by simp

lemma mirrored_step:
  assumes "getOrCreateFolderID E S (Cfg fr) (folderNameFromFileStructure root path) w0
             = ((folderID, ferr), w)"
      and "tolerated ferr"
      and "saveLibraryElements E S fr path folderID fi rs w = ((pm, err), w1)"
  shows "storeLibraryElementsInFoldersFromFileStructure E S fr ((path, fi) # rest) rs root t w0
           = storeLibraryElementsInFoldersFromFileStructure E S fr rest rs root (track t pm)
               (logIfErr ''failed to save library elements'' err w1)"
  using assms by (cases ferr) (simp_all add: tolerated_def Let_def)

lemma mirrored_abort:
  assumes "getOrCreateFolderID E S (Cfg fr) (folderNameFromFileStructure root path) w0
             = ((folderID, Some e), w)"
      and "\<not> errorsIs e ErrFolderNameMissing"
  shows "storeLibraryElementsInFoldersFromFileStructure E S fr ((path, fi) # rest) rs root t w0
           = (Some (Wrapf ''can't provision folder %q from file system structure: %w''
                      [folderNameFromFileStructure root path] e), t, w)"
  using assms by (simp add: Let_def)



section \<open>Up to date means in step with the stored checksum\<close>


lemma ex_resolveSymlink:
  "p \<noteq> ''/defs/loop.json'' \<Longrightarrow> resolveSymlink exEnv fi p = (Some fi, None)"
  by (simp add: resolveSymlink_def exEnv_def)

lemma ex_readLibraryElementsFromFile:
  "p \<noteq> ''/defs/bad.json'' \<Longrightarrow>
   readLibraryElementsFromFile exEnv (exReader m r) p t folderID = Inr (exLoaded p t folderID)"
  by (simp add: readLibraryElementsFromFile_def createLibraryElementsJSON_def exEnv_def
        exReader_def exCfg_def toConfig_def providerEntry_def exLoaded_def)



section \<open>A symlink that does not resolve\<close>

lemma resolveSymlink_fails:
  assumes "filepathEvalSymlinks E path = Inl e" and "path \<noteq> []" and "osLstat E [] = Inl e'"
  shows "resolveSymlink E fi path = (None, Some e')"
  using assms by (simp add: resolveSymlink_def)

text \<open>
  C8, as the claim states it, fails. The symlink \<open>/defs/loop.json\<close> does not resolve:
  \<open>resolveSymlink\<close> returns no metadata at all (it stats the empty path that
  \<open>EvalSymlinks\<close> returned), and the save step returns that error with the zero metadata
  and an unchanged world, although the file would load under its original metadata.
\<close>

theorem resolveSymlink_fallback_counterexample:
  "filepathEvalSymlinks exEnv ''/defs/loop.json'' = Inl (OtherError ''too many links'')
   \<and> resolveSymlink exEnv (exInfo ''loop.json'' 10) ''/defs/loop.json'' = (None, Some ErrNotExist)
   \<and> saveLibraryElements exEnv (exService noFaults) (exReader False False) ''/defs/loop.json'' 0
        (exInfo ''loop.json'' 10) [] (exWorld [])
      = ((zeroMetadata, Some ErrNotExist), exWorld [])
   \<and> readLibraryElementsFromFile exEnv (exReader False False) ''/defs/loop.json''
        (fiModTime (exInfo ''loop.json'' 10)) 0 = Inr (exLoaded ''/defs/loop.json'' 10 0)"
proof -
  have r: "resolveSymlink exEnv (exInfo ''loop.json'' 10) ''/defs/loop.json'' = (None, Some ErrNotExist)"
    by (simp add: resolveSymlink_def exEnv_def)
  have "snd (resolveSymlink exEnv (exInfo ''loop.json'' 10) ''/defs/loop.json'') = Some ErrNotExist"
    by (simp add: r)
  from saveLibraryElements_symlink_error [OF this] r show ?thesis
    by (simp add: ex_readLibraryElementsFromFile exInfo_def) (simp add: exEnv_def)
qed

text \<open>
  C8, amended. When \<open>EvalSymlinks\<close> fails for the path of a file (and \<open>Lstat\<close> of the empty
  path it returns fails, as it does on every system), \<open>resolveSymlink\<close> returns no
  metadata and the error; the save step returns that error with the zero metadata,
  without loading the file and without any storage call or log line of its own. The
  failure is per file: the flat pass logs it and goes on to the remaining files without
  tracking, the mirrored pass tracks the zero metadata (which records nothing), logs it
  and goes on.
\<close>

theorem resolveSymlink_failure_skips_file:
  assumes "filepathEvalSymlinks E path = Inl e" and "path \<noteq> []" and "osLstat E [] = Inl e'"
  shows "resolveSymlink E fi path = (None, Some e')
       \<and> saveLibraryElements E S fr path folderID fi rs w = ((zeroMetadata, Some e'), w)
       \<and> storeDashboardsInFolderLoop E S fr folderID ((path, fi) # rest) rs t w
           = storeDashboardsInFolderLoop E S fr folderID rest rs t
               (emit (Log LvlError ''failed to save dashboard'' (Some e')) w)
       \<and> (\<forall>w0 ferr root.
             getOrCreateFolderID E S (Cfg fr) (folderNameFromFileStructure root path) w0
               = ((folderID, ferr), w) \<and> tolerated ferr \<longrightarrow>
             storeLibraryElementsInFoldersFromFileStructure E S fr ((path, fi) # rest) rs root t w0
               = storeLibraryElementsInFoldersFromFileStructure E S fr rest rs root t
                   (emit (Log LvlError ''failed to save library elements'' (Some e')) w))"
proof -
  have r: "resolveSymlink E fi path = (None, Some e')"
    by (rule resolveSymlink_fails [OF assms])
  then have "snd (resolveSymlink E fi path) = Some e'" by simp
  then have sv: "saveLibraryElements E S fr path folderID fi rs w = ((zeroMetadata, Some e'), w)"
    by (rule saveLibraryElements_symlink_error)
  have m: "storeLibraryElementsInFoldersFromFileStructure E S fr ((path, fi) # rest) rs root t w0
             = storeLibraryElementsInFoldersFromFileStructure E S fr rest rs root t
                 (emit (Log LvlError ''failed to save library elements'' (Some e')) w)"
    if "getOrCreateFolderID E S (Cfg fr) (folderNameFromFileStructure root path) w0
          = ((folderID, ferr), w) \<and> tolerated ferr" for w0 ferr root
    using mirrored_step [of E S fr root path w0 folderID ferr w fi rs zeroMetadata "Some e'" w rest t]
      that sv
    by (simp add: track_zeroMetadata)
  show ?thesis
    using r sv flat_step_error [OF sv] m by blast
qed

theorem resolveSymlink_failure_skips_file_witness:
  "filepathEvalSymlinks exEnv ''/defs/loop.json'' = Inl (OtherError ''too many links'')
   \<and> ''/defs/loop.json'' \<noteq> []
   \<and> osLstat exEnv [] = Inl ErrNotExist
   \<and> saveLibraryElements exEnv (exService noFaults) (exReader False False) ''/defs/loop.json'' 0
        (exInfo ''loop.json'' 10) [] (exWorld [])
      = ((zeroMetadata, Some ErrNotExist), exWorld [])
   \<and> storeDashboardsInFolderLoop exEnv (exService noFaults) (exReader False False) 0
        [(''/defs/loop.json'', exInfo ''loop.json'' 10)] [] newUsageTracker (exWorld [])
      = (newUsageTracker, emit (Log LvlError ''failed to save dashboard'' (Some ErrNotExist)) (exWorld []))"
proof -
  have h1: "filepathEvalSymlinks exEnv ''/defs/loop.json'' = Inl (OtherError ''too many links'')"
    by (simp add: exEnv_def)
  have h2: "''/defs/loop.json'' \<noteq> []" by simp
  have h3: "osLstat exEnv [] = Inl ErrNotExist"
    by (simp add: exEnv_def)
  show ?thesis
    using h1 h3
      resolveSymlink_failure_skips_file [OF h1 h2 h3, where S = "exService noFaults"
        and fr = "exReader False False" and folderID = 0 and fi = "exInfo ''loop.json'' 10"
        and rs = "[]" and w = "exWorld []" and rest = "[]" and t = newUsageTracker]
    by simp
qed

section \<open>A save step that fails: the two passes differ\<close>

text \<open>
  C10. When the save step of a file returns an error: the flat pass logs it and goes on
  to the remaining files with the usage tracker as it was, so the file's metadata is
  not tracked; the mirrored pass has already passed the returned metadata to \<open>track\<close>
  when it looks at the error, so the remaining files are processed with the tracker
  that counts it (the zero metadata counts nothing).
\<close>

theorem save_error_tracking:
  assumes "saveLibraryElements E S fr path folderID fi rs w = ((pm, Some err), w1)"
  shows "storeDashboardsInFolderLoop E S fr folderID ((path, fi) # rest) rs t w
           = storeDashboardsInFolderLoop E S fr folderID rest rs t
               (emit (Log LvlError ''failed to save dashboard'' (Some err)) w1)
       \<and> fst (storeDashboardsInFolderLoop E S fr folderID [(path, fi)] rs t w) = t
       \<and> (\<forall>w0 ferr root.
             getOrCreateFolderID E S (Cfg fr) (folderNameFromFileStructure root path) w0
               = ((folderID, ferr), w) \<and> tolerated ferr \<longrightarrow>
             storeLibraryElementsInFoldersFromFileStructure E S fr ((path, fi) # rest) rs root t w0
               = storeLibraryElementsInFoldersFromFileStructure E S fr rest rs root (track t pm)
                   (emit (Log LvlError ''failed to save library elements'' (Some err)) w1)
           \<and> fst (snd (storeLibraryElementsInFoldersFromFileStructure E S fr [(path, fi)] rs root t w0))
               = track t pm)
       \<and> track t zeroMetadata = t"
proof -
  have m: "storeLibraryElementsInFoldersFromFileStructure E S fr ((path, fi) # rest') rs root t w0
             = storeLibraryElementsInFoldersFromFileStructure E S fr rest' rs root (track t pm)
                 (emit (Log LvlError ''failed to save library elements'' (Some err)) w1)"
    if "getOrCreateFolderID E S (Cfg fr) (folderNameFromFileStructure root path) w0
          = ((folderID, ferr), w) \<and> tolerated ferr" for w0 ferr root rest'
    using mirrored_step [of E S fr root path w0 folderID ferr w fi rs pm "Some err" w1 rest' t]
      that assms
    by simp
  have m1: "fst (snd (storeLibraryElementsInFoldersFromFileStructure E S fr [(path, fi)] rs root t w0))
              = track t pm"
    if "getOrCreateFolderID E S (Cfg fr) (folderNameFromFileStructure root path) w0
          = ((folderID, ferr), w) \<and> tolerated ferr" for w0 ferr root
    using m [OF that, of "[]"] by simp
  have f1: "fst (storeDashboardsInFolderLoop E S fr folderID [(path, fi)] rs t w) = t"
    using flat_step_error [OF assms, of "[]" t] by simp
  show ?thesis
    using flat_step_error [OF assms] f1 m m1 track_zeroMetadata by blast
qed

lemma ex_save_fails:
  "fst (saveLibraryElements exEnv (exService exFaultySave) (exReader m False) ''/defs/a.json'' 0
          (exInfo ''a.json'' 10) [] (exWorld []))
     = (metadataOf (exLoaded ''/defs/a.json'' 10 0), Some (OtherError ''database is locked''))"
proof -
  have h1: "resolveSymlink exEnv (exInfo ''a.json'' 10) ''/defs/a.json''
              = (Some (exInfo ''a.json'' 10), None)"
    by (simp add: ex_resolveSymlink)
  have h2: "readLibraryElementsFromFile exEnv (exReader m False) ''/defs/a.json''
              (fiModTime (exInfo ''a.json'' 10)) 0 = Inr (exLoaded ''/defs/a.json'' 10 0)"
    by (simp add: ex_readLibraryElementsFromFile exInfo_def)
  have h3: "\<not> inStep [] ''/defs/a.json'' (exLoaded ''/defs/a.json'' 10 0)"
    by (simp add: inStep_def)
  have h4: "\<not> dbWriteAccessRestricted (exReader m False)"
    by (simp add: exReader_def)
  from saveLibraryElements_saves [OF h1 h2 h3 h4, of "exService exFaultySave" "exWorld []"]
  show ?thesis
    by (auto simp: exService_def storageService_def storageSave_def exFaultySave_def noFaults_def)
qed

lemma ex_root_folder:
  "getOrCreateFolderID exEnv S (Cfg fr) (folderNameFromFileStructure ''/defs'' ''/defs/a.json'') w
     = ((0, Some ErrFolderNameMissing), w)"
proof -
  have "folderNameFromFileStructure ''/defs'' ''/defs/a.json'' = []"
    by code_simp
  then show ?thesis by (simp add: getOrCreateFolderID_def)
qed

theorem save_error_tracking_witness:
  "fst (saveLibraryElements exEnv (exService exFaultySave) (exReader False False) ''/defs/a.json'' 0
          (exInfo ''a.json'' 10) [] (exWorld []))
     = (metadataOf (exLoaded ''/defs/a.json'' 10 0), Some (OtherError ''database is locked''))
   \<and> fst (storeDashboardsInFolderLoop exEnv (exService exFaultySave) (exReader False False) 0
          [(''/defs/a.json'', exInfo ''a.json'' 10)] [] newUsageTracker (exWorld []))
     = newUsageTracker
   \<and> fst (snd (storeLibraryElementsInFoldersFromFileStructure exEnv (exService exFaultySave)
          (exReader True False) [(''/defs/a.json'', exInfo ''a.json'' 10)] [] ''/defs''
          newUsageTracker (exWorld [])))
     = track newUsageTracker (metadataOf (exLoaded ''/defs/a.json'' 10 0))
   \<and> uidUsage newUsageTracker ''u{/defs/a.json}'' = None
   \<and> uidUsage (track newUsageTracker (metadataOf (exLoaded ''/defs/a.json'' 10 0)))
        ''u{/defs/a.json}'' = Some 1"
proof -
  have hf: "saveLibraryElements exEnv (exService exFaultySave) (exReader False False) ''/defs/a.json'' 0
              (exInfo ''a.json'' 10) [] (exWorld [])
            = ((metadataOf (exLoaded ''/defs/a.json'' 10 0), Some (OtherError ''database is locked'')),
               snd (saveLibraryElements exEnv (exService exFaultySave) (exReader False False)
                      ''/defs/a.json'' 0 (exInfo ''a.json'' 10) [] (exWorld [])))"
    using ex_save_fails [of False] by (simp add: prod_eq_iff)
  have hm: "saveLibraryElements exEnv (exService exFaultySave) (exReader True False) ''/defs/a.json'' 0
              (exInfo ''a.json'' 10) [] (exWorld [])
            = ((metadataOf (exLoaded ''/defs/a.json'' 10 0), Some (OtherError ''database is locked'')),
               snd (saveLibraryElements exEnv (exService exFaultySave) (exReader True False)
                      ''/defs/a.json'' 0 (exInfo ''a.json'' 10) [] (exWorld [])))"
    using ex_save_fails [of True] by (simp add: prod_eq_iff)
  have g: "getOrCreateFolderID exEnv (exService exFaultySave) (Cfg (exReader True False))
             (folderNameFromFileStructure ''/defs'' ''/defs/a.json'') (exWorld [])
           = ((0, Some ErrFolderNameMissing), exWorld []) \<and> tolerated (Some ErrFolderNameMissing)"
    by (simp add: ex_root_folder tolerated_def)
  have c0: "uidUsage newUsageTracker ''u{/defs/a.json}'' = None"
    by (simp add: newUsageTracker_def)
  have c1: "uidUsage (track newUsageTracker (metadataOf (exLoaded ''/defs/a.json'' 10 0)))
              ''u{/defs/a.json}'' = Some 1"
    by (simp add: track_def newUsageTracker_def metadataOf_def exLoaded_def increment_def Exists_def)
  show ?thesis
    using ex_save_fails [of False] c0 c1 g
      save_error_tracking [OF hf, where t = newUsageTracker]
      save_error_tracking [OF hm, where t = newUsageTracker]
    by blast
qed


section \<open>What each step adds to the trace\<close>

lemma resolveSymlink_not_nil: "resolveSymlink E fi path \<noteq> (None, None)"
  by (auto simp: resolveSymlink_def split: sum.splits)



text \<open>The save step never adds anything but log lines and save calls.\<close>

lemma saveLibraryElements_trace:
  "\<exists>tl. trace (snd (saveLibraryElements E S fr path folderID fi rs w)) = trace w @ tl
        \<and> (\<forall>ev \<in> set tl. \<not> isMutation ev \<or> isSave ev)"
proof (cases "resolveSymlink E fi path")
  case (Pair a b)
  show ?thesis
  proof (cases b)
    case (Some err)
    then have "snd (resolveSymlink E fi path) = Some err" using Pair by simp
    from saveLibraryElements_symlink_error [OF this, where S = S and fr = fr and folderID = folderID and rs = rs and w = w] show ?thesis by simp
  next
    case None
    then obtain rfi where r: "resolveSymlink E fi path = (Some rfi, None)"
      using Pair resolveSymlink_not_nil [of E fi path] by (cases a) auto
    show ?thesis
    proof (cases "readLibraryElementsFromFile E fr path (fiModTime rfi) folderID")
      case (Inl err)
      from saveLibraryElements_load_error [OF r Inl, where S = S and rs = rs and w = w] show ?thesis
        by (simp add: emit_def)
    next
      case (Inr jf)
      show ?thesis
      proof (cases "inStep rs path jf")
        case True
        from saveLibraryElements_in_step [OF r Inr True, where S = S and w = w] show ?thesis by simp
      next
        case False
        show ?thesis
        proof (cases "dbWriteAccessRestricted fr")
          case True
          from saveLibraryElements_restricted [OF r Inr False True, where S = S and w = w] show ?thesis
            by (simp add: emit_def)
        next
          case nr: False
          from saveLibraryElements_saves [OF r Inr False nr, where S = S and w = w] show ?thesis by auto
        qed
      qed
    qed
  qed
qed





lemma logIfErr_keeps:
  "filter isMutation (trace (logIfErr msg err w)) = filter isMutation (trace w)
   \<and> filter isSave (trace (logIfErr msg err w)) = filter isSave (trace w)
   \<and> store (logIfErr msg err w) = store w"
  by (cases err) (simp_all add: emit_def)

lemma resolvedPath_root: "fst (resolvedPath E fr w) = resolvedRoot E fr"
  by (cases "filepathAbs E (Path fr)"; cases "filepathEvalSymlinks E []";
      cases "filepathEvalSymlinks E (projr (filepathAbs E (Path fr)))")
     (simp_all add: resolvedPath_def resolvedRoot_def Let_def)

lemma resolvedPath_logs:
  "filter isMutation (trace (snd (resolvedPath E fr w))) = filter isMutation (trace w)
   \<and> filter isSave (trace (snd (resolvedPath E fr w))) = filter isSave (trace w)
   \<and> store (snd (resolvedPath E fr w)) = store w"
proof -
  define w1 where "w1 = (case osStat E (Path fr) of
                  Some err \<Rightarrow> if IsNotExist err
                              then emit (Log LvlError ''Cannot read directory'' (Some err)) w else w
                | None \<Rightarrow> w)"
  have k1: "filter isMutation (trace w1) = filter isMutation (trace w)
            \<and> filter isSave (trace w1) = filter isSave (trace w) \<and> store w1 = store w"
    by (simp add: w1_def emit_def split: option.splits)
  obtain path1 err1 where a: "(case filepathAbs E (Path fr) of
                             Inl e \<Rightarrow> ([], Some e) | Inr p \<Rightarrow> (p, None)) = (path1, err1)"
    by (cases "filepathAbs E (Path fr)") simp_all
  obtain path2 err2 where b: "(case filepathEvalSymlinks E path1 of
                             Inl e \<Rightarrow> ([], Some e) | Inr p \<Rightarrow> (p, None)) = (path2, err2)"
    by (cases "filepathEvalSymlinks E path1") simp_all
  define w3 where "w3 = logIfErr ''Failed to read content of symlinked path'' err2
                          (logIfErr ''Could not create absolute path'' err1 w1)"
  have k3: "filter isMutation (trace w3) = filter isMutation (trace w)
            \<and> filter isSave (trace w3) = filter isSave (trace w) \<and> store w3 = store w"
    using k1 by (simp add: w3_def logIfErr_keeps)
  have "snd (resolvedPath E fr w)
          = (if path2 = []
             then emit (Log LvlInfo ''falling back to original path due to EvalSymlink/Abs failure'' None) w3
             else w3)"
    using a b by (simp add: resolvedPath_def Let_def w1_def w3_def)
  then show ?thesis using k3 by (simp add: emit_def)
qed






text \<open>\<open>walkDisk\<close>, step by step.\<close>

lemma walkDisk_steps:
  "walkDisk E S fr w =
     (case osStat E (resolvedRoot E fr) of
        Some err \<Rightarrow>
          (Some err, fr, snd (resolvedPath E fr (emit (Log LvlDebug ''Start walking disk'' None) w)))
      | None \<Rightarrow>
     (case getProvisionedLibraryElementssByPath S (store w) (cfgName (Cfg fr)) of
        Inl err \<Rightarrow>
          (Some err, fr, snd (resolvedPath E fr (emit (Log LvlDebug ''Start walking disk'' None) w)))
      | Inr rs \<Rightarrow>
     (case Walk (resolvedRoot E fr) (walkTree E (resolvedRoot E fr)) [] of
        (Some err, fs) \<Rightarrow>
          (Some err, fr, snd (resolvedPath E fr (emit (Log LvlDebug ''Start walking disk'' None) w)))
      | (None, fs) \<Rightarrow>
     (case (if FoldersFromFilesStructure fr
            then storeLibraryElementsInFoldersFromFileStructure E S fr (rangeFiles E fs) rs
                   (resolvedRoot E fr) newUsageTracker
                   (handleMissingLibraryElementsFiles S fr (rangeRefs E rs) fs
                      (snd (resolvedPath E fr (emit (Log LvlDebug ''Start walking disk'' None) w))))
            else storeDashboardsInFolder E S fr (rangeFiles E fs) rs newUsageTracker
                   (handleMissingLibraryElementsFiles S fr (rangeRefs E rs) fs
                      (snd (resolvedPath E fr (emit (Log LvlDebug ''Start walking disk'' None) w))))) of
        (Some err, t, w3) \<Rightarrow> (Some err, fr, w3)
      | (None, t, w3) \<Rightarrow> (None, fr\<lparr>frUsageTracker := t\<rparr>, w3)))))"
proof -
  obtain root w1 where r: "resolvedPath E fr (emit (Log LvlDebug ''Start walking disk'' None) w) = (root, w1)"
    by (metis surj_pair)
  have root: "root = resolvedRoot E fr"
    using resolvedPath_root [of E fr "emit (Log LvlDebug ''Start walking disk'' None) w"] r by simp
  have st: "store w1 = store w"
    using resolvedPath_logs [of E fr "emit (Log LvlDebug ''Start walking disk'' None) w"] r
    by (simp add: emit_def)
  show ?thesis
    unfolding walkDisk_def r using root st
    by (simp add: Let_def cong: option.case_cong sum.case_cong prod.case_cong if_cong)
qed


section \<open>The tracker a scan installs\<close>









section \<open>A scan under restricted write access\<close>






section \<open>Which errors end a scan\<close>

lemma flat_loop_append:
  "storeDashboardsInFolderLoop E S fr folderID (xs @ ys) rs t w
     = (case storeDashboardsInFolderLoop E S fr folderID xs rs t w of
          (t', w') \<Rightarrow> storeDashboardsInFolderLoop E S fr folderID ys rs t' w')"
proof (induction xs arbitrary: t w)
  case Nil
  then show ?case by simp
next
  case (Cons x xs)
  obtain path fi where x: "x = (path, fi)" by (cases x)
  obtain pm err w1 where sv: "saveLibraryElements E S fr path folderID fi rs w = ((pm, err), w1)"
    by (metis surj_pair)
  show ?case
    using sv x Cons.IH by (cases err) simp_all
qed

lemma flat_pass_error:
  "storeDashboardsInFolder E S fr fs rs t w
     = (if tolerated (snd (fst (getOrCreateFolderID E S (Cfg fr) (cfgFolder (Cfg fr)) w)))
        then (None,
              storeDashboardsInFolderLoop E S fr
                (fst (fst (getOrCreateFolderID E S (Cfg fr) (cfgFolder (Cfg fr)) w))) fs rs t
                (snd (getOrCreateFolderID E S (Cfg fr) (cfgFolder (Cfg fr)) w)))
        else (snd (fst (getOrCreateFolderID E S (Cfg fr) (cfgFolder (Cfg fr)) w)), t,
              snd (getOrCreateFolderID E S (Cfg fr) (cfgFolder (Cfg fr)) w)))"
proof -
  obtain folderID err w1 where g: "getOrCreateFolderID E S (Cfg fr) (cfgFolder (Cfg fr)) w
                                     = ((folderID, err), w1)"
    by (metis surj_pair)
  show ?thesis
    by (cases err) (simp_all add: storeDashboardsInFolder_def g tolerated_def split: prod.splits)
qed

lemma mirrored_error_is_folder:
  "fst (storeLibraryElementsInFoldersFromFileStructure E S fr fs rs root t w) = Some err \<Longrightarrow>
   \<exists>name e. err = Wrapf ''can't provision folder %q from file system structure: %w'' [name] e
           \<and> \<not> errorsIs e ErrFolderNameMissing"
proof (induction fs arbitrary: t w)
  case Nil
  then show ?case by simp
next
  case (Cons f fs)
  obtain path fi where f: "f = (path, fi)" by (cases f)
  obtain folderID ferr w1 where
    g: "getOrCreateFolderID E S (Cfg fr) (folderNameFromFileStructure root path) w
          = ((folderID, ferr), w1)"
    by (metis surj_pair)
  show ?case
  proof (cases "tolerated ferr")
    case True
    obtain pm serr w2 where sv: "saveLibraryElements E S fr path folderID fi rs w1 = ((pm, serr), w2)"
      by (metis surj_pair)
    show ?thesis
      using mirrored_step [OF g True sv, where rest = fs and t = t] f Cons.prems
        Cons.IH [of "track t pm" "logIfErr ''failed to save library elements'' serr w2"]
      by simp
  next
    case False
    then obtain e where e: "ferr = Some e" "\<not> errorsIs e ErrFolderNameMissing"
      by (auto simp: tolerated_def split: option.splits)
    show ?thesis
      using mirrored_abort [of E S fr root path w folderID e w1 fi fs rs t] g e f Cons.prems
      by auto
  qed
qed

lemma mirrored_append:
  "fst (storeLibraryElementsInFoldersFromFileStructure E S fr xs rs root t w) = None \<Longrightarrow>
   storeLibraryElementsInFoldersFromFileStructure E S fr (xs @ ys) rs root t w
     = storeLibraryElementsInFoldersFromFileStructure E S fr ys rs root
         (fst (snd (storeLibraryElementsInFoldersFromFileStructure E S fr xs rs root t w)))
         (snd (snd (storeLibraryElementsInFoldersFromFileStructure E S fr xs rs root t w)))"
proof (induction xs arbitrary: t w)
  case Nil
  then show ?case by simp
next
  case (Cons x xs)
  obtain path fi where x: "x = (path, fi)" by (cases x)
  obtain folderID ferr w1 where
    g: "getOrCreateFolderID E S (Cfg fr) (folderNameFromFileStructure root path) w
          = ((folderID, ferr), w1)"
    by (metis surj_pair)
  show ?case
  proof (cases "tolerated ferr")
    case True
    obtain pm serr w2 where sv: "saveLibraryElements E S fr path folderID fi rs w1 = ((pm, serr), w2)"
      by (metis surj_pair)
    have s1: "storeLibraryElementsInFoldersFromFileStructure E S fr (x # zs) rs root t w
                = storeLibraryElementsInFoldersFromFileStructure E S fr zs rs root (track t pm)
                    (logIfErr ''failed to save library elements'' serr w2)" for zs
      using mirrored_step [OF g True sv, where rest = zs and t = t] x by simp
    show ?thesis
      using s1 [of xs] s1 [of "xs @ ys"] Cons.prems
        Cons.IH [of "track t pm" "logIfErr ''failed to save library elements'' serr w2"]
      by simp
  next
    case False
    then obtain e where e: "ferr = Some e" "\<not> errorsIs e ErrFolderNameMissing"
      by (auto simp: tolerated_def split: option.splits)
    show ?thesis
      using mirrored_abort [of E S fr root path w folderID e w1 fi xs rs t] g e x Cons.prems
      by simp
  qed
qed

lemma walkDisk_structural_error:
  assumes "osStat E (resolvedRoot E fr) \<noteq> None
           \<or> isl (getProvisionedLibraryElementssByPath S (store w) (cfgName (Cfg fr)))
           \<or> fst (Walk (resolvedRoot E fr) (walkTree E (resolvedRoot E fr)) []) \<noteq> None"
  shows "fst (walkDisk E S fr w) \<noteq> None \<and> fst (snd (walkDisk E S fr w)) = fr
       \<and> filter isMutation (trace (snd (snd (walkDisk E S fr w)))) = filter isMutation (trace w)"
proof -
  have t1: "filter isMutation (trace (snd (resolvedPath E fr
               (emit (Log LvlDebug ''Start walking disk'' None) w))))
             = filter isMutation (trace w)"
    using resolvedPath_logs [of E fr "emit (Log LvlDebug ''Start walking disk'' None) w"]
    by (simp add: emit_def)
  show ?thesis
  proof (cases "osStat E (resolvedRoot E fr)")
    case (Some err)
    then show ?thesis using t1 by (simp add: walkDisk_steps)
  next
    case None
    show ?thesis
    proof (cases "getProvisionedLibraryElementssByPath S (store w) (cfgName (Cfg fr))")
      case (Inl err)
      then show ?thesis using None t1 by (simp add: walkDisk_steps)
    next
      case (Inr rs)
      obtain werr fs where wk: "Walk (resolvedRoot E fr) (walkTree E (resolvedRoot E fr)) [] = (werr, fs)"
        by (metis surj_pair)
      then obtain err where "werr = Some err"
        using assms None Inr by auto
      then show ?thesis using None Inr wk t1 by (simp add: walkDisk_steps)
    qed
  qed
qed

lemma walkDisk_placement:
  assumes "osStat E (resolvedRoot E fr) = None"
      and "getProvisionedLibraryElementssByPath S (store w) (cfgName (Cfg fr)) = Inr provisioned"
      and "Walk (resolvedRoot E fr) (walkTree E (resolvedRoot E fr)) [] = (None, onDisk)"
  shows "fst (walkDisk E S fr w) = fst (placementPass E S fr provisioned onDisk w)
       \<and> fst (snd (walkDisk E S fr w))
           = (if fst (placementPass E S fr provisioned onDisk w) = None
              then fr\<lparr>frUsageTracker := fst (snd (placementPass E S fr provisioned onDisk w))\<rparr>
              else fr)
       \<and> snd (snd (walkDisk E S fr w)) = snd (snd (placementPass E S fr provisioned onDisk w))"
proof -
  obtain perr t' w3 where p: "placementPass E S fr provisioned onDisk w = (perr, t', w3)"
    by (metis prod_cases3)
  have "walkDisk E S fr w
          = (case perr of Some err \<Rightarrow> (Some err, fr, w3)
             | None \<Rightarrow> (None, fr\<lparr>frUsageTracker := t'\<rparr>, w3))"
    unfolding walkDisk_steps using assms p
    by (cases perr) (simp_all add: placementPass_def afterDeletion_def split: if_splits)
  then show ?thesis using p by (cases perr) simp_all
qed

text \<open>
  C4, as the claim states it, fails: a folder that cannot be resolved is not a per-item
  failure. In mirrored mode, with the files visited as \<open>/defs/sub/b.json\<close> then
  \<open>/defs/a.json\<close> and a folder query that fails for \<open>sub\<close>, the scan returns the wrapped
  folder error and makes no storage call at all, although \<open>/defs/a.json\<close> lies in the
  root, needs no folder and is saved when the query does not fail.
\<close>

theorem folder_failure_aborts_counterexample:
  "fst (walkDisk exEnvRev (exService exFaultyQuery) (exReader True False) (exWorld []))
     = Some (Wrapf ''can't provision folder %q from file system structure: %w'' [''sub'']
               (OtherError ''database is locked''))
   \<and> filter isMutation (trace (snd (snd
         (walkDisk exEnvRev (exService exFaultyQuery) (exReader True False) (exWorld [])))))
     = []
   \<and> savedPaths (trace (snd (snd
         (walkDisk exEnvRev (exService noFaults) (exReader True False) (exWorld [])))))
     = [''/defs/sub/b.json'', ''/defs/a.json'']"
  by code_simp

text \<open>
  C4, amended. An error of steps 1 to 3 (the root cannot be read, the provisioned
  references cannot be fetched, the walk fails) ends the scan: \<open>walkDisk\<close> returns an
  error, the reader keeps its usage tracker and no storage call is made. So does a
  failure to resolve or create a destination folder (other than an empty folder name):
  in flat mode the pass returns the error before any file is processed, in mirrored
  mode it returns the wrapped error at the first file whose folder fails and the files
  after it are not processed; the placement pass returns no other error. The remaining
  errors of steps 4 to 6 are per item: the deletion pass issues the call of every
  record it has to remove whatever the earlier calls returned (a failed call is logged);
  the save step of a file that does not load logs the failure, returns no error and
  leaves the storage and the tracker as they were, so that the flat loop goes on to the
  next file from the same storage and tracker, and the mirrored pass from the storage
  that resolving the folder of the file left (the folder is resolved, and created when
  it is missing, before the file is loaded); and the files after any file are processed
  from the state that file left, whatever its save step returned. When steps 1 to 3
  succeed, the scan returns what the placement pass returns, run from the world the
  deletion pass left: its error, its world, and the reader with the tracker of the pass
  when there is no error, the reader as it was otherwise. So a flat scan whose folder
  fails returns that error with no file processed, and every error a mirrored scan
  returns after step 3 is the wrapped error of a folder.
\<close>

theorem scan_error_handling:
  "(osStat E (resolvedRoot E fr) \<noteq> None
      \<or> isl (getProvisionedLibraryElementssByPath S (store w) (cfgName (Cfg fr)))
      \<or> fst (Walk (resolvedRoot E fr) (walkTree E (resolvedRoot E fr)) []) \<noteq> None
    \<longrightarrow> fst (walkDisk E S fr w) \<noteq> None \<and> fst (snd (walkDisk E S fr w)) = fr
       \<and> filter isMutation (trace (snd (snd (walkDisk E S fr w)))) = filter isMutation (trace w))
   \<and> filter isMutation (trace (unprovisionLoop S ids w))
       = filter isMutation (trace w) @ map CallUnprovision ids
   \<and> filter isMutation (trace (deleteLoop S orgID ids w))
       = filter isMutation (trace w) @ map (\<lambda>i. CallDelete i orgID) ids
   \<and> deleteLoop S orgID (i # ids) w
       = deleteLoop S orgID ids
           (logIfErr ''failed to delete LibraryElements''
              (fst (DeleteProvisionedLibraryElements S (store w) i orgID))
              \<lparr> store = snd (DeleteProvisionedLibraryElements S (store w) i orgID),
                trace = trace w @
                  [Log LvlDebug ''deleting provisioned LibraryElements, missing on disk'' None,
                   CallDelete i orgID] \<rparr>)
   \<and> (resolveSymlink E fi path = (Some rfi, None)
        \<and> readLibraryElementsFromFile E fr path (fiModTime rfi) folderID = Inl err
      \<longrightarrow> saveLibraryElements E S fr path folderID fi rs w
            = ((zeroMetadata, None),
               emit (Log LvlError ''failed to load LibraryElements from '' (Some err)) w))
   \<and> storeDashboardsInFolderLoop E S fr folderID (xs @ ys) rs t w
       = (case storeDashboardsInFolderLoop E S fr folderID xs rs t w of
            (t', w') \<Rightarrow> storeDashboardsInFolderLoop E S fr folderID ys rs t' w')
   \<and> (fst (storeLibraryElementsInFoldersFromFileStructure E S fr xs rs root t w) = None
      \<longrightarrow> storeLibraryElementsInFoldersFromFileStructure E S fr (xs @ ys) rs root t w
            = storeLibraryElementsInFoldersFromFileStructure E S fr ys rs root
                (fst (snd (storeLibraryElementsInFoldersFromFileStructure E S fr xs rs root t w)))
                (snd (snd (storeLibraryElementsInFoldersFromFileStructure E S fr xs rs root t w))))
   \<and> (fst (storeDashboardsInFolder E S fr xs rs t w) \<noteq> None
        \<longleftrightarrow> \<not> tolerated (snd (fst (getOrCreateFolderID E S (Cfg fr) (cfgFolder (Cfg fr)) w))))
   \<and> (\<not> tolerated (snd (fst (getOrCreateFolderID E S (Cfg fr) (cfgFolder (Cfg fr)) w)))
      \<longrightarrow> storeDashboardsInFolder E S fr xs rs t w
            = (snd (fst (getOrCreateFolderID E S (Cfg fr) (cfgFolder (Cfg fr)) w)), t,
               snd (getOrCreateFolderID E S (Cfg fr) (cfgFolder (Cfg fr)) w)))
   \<and> (\<forall>folderID' e w1.
         getOrCreateFolderID E S (Cfg fr) (folderNameFromFileStructure root path) w
           = ((folderID', Some e), w1) \<and> \<not> errorsIs e ErrFolderNameMissing
      \<longrightarrow> storeLibraryElementsInFoldersFromFileStructure E S fr ((path, fi) # ys) rs root t w
            = (Some (Wrapf ''can't provision folder %q from file system structure: %w''
                       [folderNameFromFileStructure root path] e), t, w1))
   \<and> (\<forall>e. fst (storeLibraryElementsInFoldersFromFileStructure E S fr xs rs root t w) = Some e
      \<longrightarrow> (\<exists>name e'. e = Wrapf ''can't provision folder %q from file system structure: %w'' [name] e'
                    \<and> \<not> errorsIs e' ErrFolderNameMissing))
   \<and> (osStat E (resolvedRoot E fr) = None
        \<and> getProvisionedLibraryElementssByPath S (store w) (cfgName (Cfg fr)) = Inr provisioned
        \<and> Walk (resolvedRoot E fr) (walkTree E (resolvedRoot E fr)) [] = (None, onDisk)
      \<longrightarrow> fst (walkDisk E S fr w) = fst (placementPass E S fr provisioned onDisk w)
        \<and> fst (snd (walkDisk E S fr w))
            = (if fst (placementPass E S fr provisioned onDisk w) = None
               then fr\<lparr>frUsageTracker := fst (snd (placementPass E S fr provisioned onDisk w))\<rparr>
               else fr)
        \<and> snd (snd (walkDisk E S fr w)) = snd (snd (placementPass E S fr provisioned onDisk w)))
   \<and> (osStat E (resolvedRoot E fr) = None
        \<and> getProvisionedLibraryElementssByPath S (store w) (cfgName (Cfg fr)) = Inr provisioned
        \<and> Walk (resolvedRoot E fr) (walkTree E (resolvedRoot E fr)) [] = (None, onDisk)
        \<and> \<not> FoldersFromFilesStructure fr
        \<and> \<not> tolerated (snd (fst (getOrCreateFolderID E S (Cfg fr) (cfgFolder (Cfg fr))
                                     (afterDeletion E S fr provisioned onDisk w))))
      \<longrightarrow> walkDisk E S fr w
            = (snd (fst (getOrCreateFolderID E S (Cfg fr) (cfgFolder (Cfg fr))
                           (afterDeletion E S fr provisioned onDisk w))),
               fr,
               snd (getOrCreateFolderID E S (Cfg fr) (cfgFolder (Cfg fr))
                      (afterDeletion E S fr provisioned onDisk w))))
   \<and> (osStat E (resolvedRoot E fr) = None
        \<and> getProvisionedLibraryElementssByPath S (store w) (cfgName (Cfg fr)) = Inr provisioned
        \<and> Walk (resolvedRoot E fr) (walkTree E (resolvedRoot E fr)) [] = (None, onDisk)
        \<and> FoldersFromFilesStructure fr
      \<longrightarrow> (\<forall>e. fst (walkDisk E S fr w) = Some e
            \<longrightarrow> (\<exists>name e'. e = Wrapf ''can't provision folder %q from file system structure: %w''
                                   [name] e'
                          \<and> \<not> errorsIs e' ErrFolderNameMissing)))
   \<and> (resolveSymlink E fi path = (Some rfi, None)
        \<and> readLibraryElementsFromFile E fr path (fiModTime rfi) folderID = Inl err
      \<longrightarrow> storeDashboardsInFolderLoop E S fr folderID ((path, fi) # ys) rs t w
            = storeDashboardsInFolderLoop E S fr folderID ys rs t
                (emit (Log LvlError ''failed to load LibraryElements from '' (Some err)) w))
   \<and> (\<forall>ferr w1.
         getOrCreateFolderID E S (Cfg fr) (folderNameFromFileStructure root path) w
           = ((folderID, ferr), w1) \<and> tolerated ferr
         \<and> resolveSymlink E fi path = (Some rfi, None)
         \<and> readLibraryElementsFromFile E fr path (fiModTime rfi) folderID = Inl err
      \<longrightarrow> storeLibraryElementsInFoldersFromFileStructure E S fr ((path, fi) # ys) rs root t w
            = storeLibraryElementsInFoldersFromFileStructure E S fr ys rs root t
                (emit (Log LvlError ''failed to load LibraryElements from '' (Some err)) w1))"
proof -
  have dstep: "deleteLoop S orgID (i # ids) w
       = deleteLoop S orgID ids
           (logIfErr ''failed to delete LibraryElements''
              (fst (DeleteProvisionedLibraryElements S (store w) i orgID))
              \<lparr> store = snd (DeleteProvisionedLibraryElements S (store w) i orgID),
                trace = trace w @
                  [Log LvlDebug ''deleting provisioned LibraryElements, missing on disk'' None,
                   CallDelete i orgID] \<rparr>)"
    by (simp add: emit_def split: prod.splits)
  have flat: "(fst (storeDashboardsInFolder E S fr xs rs t w) \<noteq> None
        \<longleftrightarrow> \<not> tolerated (snd (fst (getOrCreateFolderID E S (Cfg fr) (cfgFolder (Cfg fr)) w))))
     \<and> (\<not> tolerated (snd (fst (getOrCreateFolderID E S (Cfg fr) (cfgFolder (Cfg fr)) w)))
      \<longrightarrow> storeDashboardsInFolder E S fr xs rs t w
            = (snd (fst (getOrCreateFolderID E S (Cfg fr) (cfgFolder (Cfg fr)) w)), t,
               snd (getOrCreateFolderID E S (Cfg fr) (cfgFolder (Cfg fr)) w)))"
  proof -
    have "x \<noteq> None" if "\<not> tolerated x" for x
      using that by (cases x) (simp_all add: tolerated_def)
    then show ?thesis
      by (auto simp: flat_pass_error [of E S fr xs rs t w] split: prod.splits)
  qed
  have mab: "\<forall>folderID' e w1.
         getOrCreateFolderID E S (Cfg fr) (folderNameFromFileStructure root path) w
           = ((folderID', Some e), w1) \<and> \<not> errorsIs e ErrFolderNameMissing
      \<longrightarrow> storeLibraryElementsInFoldersFromFileStructure E S fr ((path, fi) # ys) rs root t w
            = (Some (Wrapf ''can't provision folder %q from file system structure: %w''
                       [folderNameFromFileStructure root path] e), t, w1)"
    using mirrored_abort by blast
  have merr: "\<forall>e. fst (storeLibraryElementsInFoldersFromFileStructure E S fr xs rs root t w) = Some e
      \<longrightarrow> (\<exists>name e'. e = Wrapf ''can't provision folder %q from file system structure: %w'' [name] e'
                    \<and> \<not> errorsIs e' ErrFolderNameMissing)"
    using mirrored_error_is_folder by blast
  have load: "resolveSymlink E fi path = (Some rfi, None)
        \<and> readLibraryElementsFromFile E fr path (fiModTime rfi) folderID = Inl err
      \<longrightarrow> saveLibraryElements E S fr path folderID fi rs w
            = ((zeroMetadata, None),
               emit (Log LvlError ''failed to load LibraryElements from '' (Some err)) w)"
    using saveLibraryElements_load_error by blast
  have struct: "osStat E (resolvedRoot E fr) \<noteq> None
      \<or> isl (getProvisionedLibraryElementssByPath S (store w) (cfgName (Cfg fr)))
      \<or> fst (Walk (resolvedRoot E fr) (walkTree E (resolvedRoot E fr)) []) \<noteq> None
    \<longrightarrow> fst (walkDisk E S fr w) \<noteq> None \<and> fst (snd (walkDisk E S fr w)) = fr
       \<and> filter isMutation (trace (snd (snd (walkDisk E S fr w)))) = filter isMutation (trace w)"
    using walkDisk_structural_error [of E fr S w] by blast
  have mapp: "fst (storeLibraryElementsInFoldersFromFileStructure E S fr xs rs root t w) = None
      \<longrightarrow> storeLibraryElementsInFoldersFromFileStructure E S fr (xs @ ys) rs root t w
            = storeLibraryElementsInFoldersFromFileStructure E S fr ys rs root
                (fst (snd (storeLibraryElementsInFoldersFromFileStructure E S fr xs rs root t w)))
                (snd (snd (storeLibraryElementsInFoldersFromFileStructure E S fr xs rs root t w)))"
    using mirrored_append by blast
  have place: "osStat E (resolvedRoot E fr) = None
        \<and> getProvisionedLibraryElementssByPath S (store w) (cfgName (Cfg fr)) = Inr provisioned
        \<and> Walk (resolvedRoot E fr) (walkTree E (resolvedRoot E fr)) [] = (None, onDisk)
      \<longrightarrow> fst (walkDisk E S fr w) = fst (placementPass E S fr provisioned onDisk w)
        \<and> fst (snd (walkDisk E S fr w))
            = (if fst (placementPass E S fr provisioned onDisk w) = None
               then fr\<lparr>frUsageTracker := fst (snd (placementPass E S fr provisioned onDisk w))\<rparr>
               else fr)
        \<and> snd (snd (walkDisk E S fr w)) = snd (snd (placementPass E S fr provisioned onDisk w))"
    using walkDisk_placement [of E fr S w provisioned onDisk] by blast
  have wflat: "osStat E (resolvedRoot E fr) = None
        \<and> getProvisionedLibraryElementssByPath S (store w) (cfgName (Cfg fr)) = Inr provisioned
        \<and> Walk (resolvedRoot E fr) (walkTree E (resolvedRoot E fr)) [] = (None, onDisk)
        \<and> \<not> FoldersFromFilesStructure fr
        \<and> \<not> tolerated (snd (fst (getOrCreateFolderID E S (Cfg fr) (cfgFolder (Cfg fr))
                                     (afterDeletion E S fr provisioned onDisk w))))
      \<longrightarrow> walkDisk E S fr w
            = (snd (fst (getOrCreateFolderID E S (Cfg fr) (cfgFolder (Cfg fr))
                           (afterDeletion E S fr provisioned onDisk w))),
               fr,
               snd (getOrCreateFolderID E S (Cfg fr) (cfgFolder (Cfg fr))
                      (afterDeletion E S fr provisioned onDisk w)))"
  proof
    assume a: "osStat E (resolvedRoot E fr) = None
        \<and> getProvisionedLibraryElementssByPath S (store w) (cfgName (Cfg fr)) = Inr provisioned
        \<and> Walk (resolvedRoot E fr) (walkTree E (resolvedRoot E fr)) [] = (None, onDisk)
        \<and> \<not> FoldersFromFilesStructure fr
        \<and> \<not> tolerated (snd (fst (getOrCreateFolderID E S (Cfg fr) (cfgFolder (Cfg fr))
                                     (afterDeletion E S fr provisioned onDisk w))))"
    let ?G = "getOrCreateFolderID E S (Cfg fr) (cfgFolder (Cfg fr))
                (afterDeletion E S fr provisioned onDisk w)"
    have nt: "\<not> tolerated (snd (fst ?G))" using a by blast
    then have ne: "snd (fst ?G) \<noteq> None"
      by (cases "snd (fst ?G)") (simp_all add: tolerated_def)
    have pp: "placementPass E S fr provisioned onDisk w = (snd (fst ?G), newUsageTracker, snd ?G)"
      using a nt
      by (simp add: placementPass_def
            flat_pass_error [of E S fr "rangeFiles E onDisk" provisioned newUsageTracker
                               "afterDeletion E S fr provisioned onDisk w"])
    have s: "osStat E (resolvedRoot E fr) = None"
      and g: "getProvisionedLibraryElementssByPath S (store w) (cfgName (Cfg fr)) = Inr provisioned"
      and k: "Walk (resolvedRoot E fr) (walkTree E (resolvedRoot E fr)) [] = (None, onDisk)"
      using a by blast+
    from walkDisk_placement [OF s g k] pp ne
    show "walkDisk E S fr w = (snd (fst ?G), fr, snd ?G)"
      by (simp add: prod_eq_iff)
  qed
  have wmirr: "osStat E (resolvedRoot E fr) = None
        \<and> getProvisionedLibraryElementssByPath S (store w) (cfgName (Cfg fr)) = Inr provisioned
        \<and> Walk (resolvedRoot E fr) (walkTree E (resolvedRoot E fr)) [] = (None, onDisk)
        \<and> FoldersFromFilesStructure fr
      \<longrightarrow> (\<forall>e. fst (walkDisk E S fr w) = Some e
            \<longrightarrow> (\<exists>name e'. e = Wrapf ''can't provision folder %q from file system structure: %w''
                                   [name] e'
                          \<and> \<not> errorsIs e' ErrFolderNameMissing))"
  proof (intro impI allI)
    fix e
    assume a: "osStat E (resolvedRoot E fr) = None
        \<and> getProvisionedLibraryElementssByPath S (store w) (cfgName (Cfg fr)) = Inr provisioned
        \<and> Walk (resolvedRoot E fr) (walkTree E (resolvedRoot E fr)) [] = (None, onDisk)
        \<and> FoldersFromFilesStructure fr"
      and e: "fst (walkDisk E S fr w) = Some e"
    have s: "osStat E (resolvedRoot E fr) = None"
      and g: "getProvisionedLibraryElementssByPath S (store w) (cfgName (Cfg fr)) = Inr provisioned"
      and k: "Walk (resolvedRoot E fr) (walkTree E (resolvedRoot E fr)) [] = (None, onDisk)"
      and m: "FoldersFromFilesStructure fr"
      using a by blast+
    have "fst (storeLibraryElementsInFoldersFromFileStructure E S fr (rangeFiles E onDisk) provisioned
             (resolvedRoot E fr) newUsageTracker (afterDeletion E S fr provisioned onDisk w)) = Some e"
      using walkDisk_placement [OF s g k] e m by (simp add: placementPass_def)
    from mirrored_error_is_folder [OF this]
    show "\<exists>name e'. e = Wrapf ''can't provision folder %q from file system structure: %w''
                                   [name] e'
                          \<and> \<not> errorsIs e' ErrFolderNameMissing" .
  qed
  have fload: "resolveSymlink E fi path = (Some rfi, None)
        \<and> readLibraryElementsFromFile E fr path (fiModTime rfi) folderID = Inl err
      \<longrightarrow> storeDashboardsInFolderLoop E S fr folderID ((path, fi) # ys) rs t w
            = storeDashboardsInFolderLoop E S fr folderID ys rs t
                (emit (Log LvlError ''failed to load LibraryElements from '' (Some err)) w)"
  proof
    assume a: "resolveSymlink E fi path = (Some rfi, None)
        \<and> readLibraryElementsFromFile E fr path (fiModTime rfi) folderID = Inl err"
    from saveLibraryElements_load_error [OF a [THEN conjunct1] a [THEN conjunct2], of S rs w]
    have "storeDashboardsInFolderLoop E S fr folderID ((path, fi) # ys) rs t w
            = storeDashboardsInFolderLoop E S fr folderID ys rs (track t zeroMetadata)
                (emit (Log LvlError ''failed to load LibraryElements from '' (Some err)) w)"
      by (rule flat_step_ok)
    then show "storeDashboardsInFolderLoop E S fr folderID ((path, fi) # ys) rs t w
            = storeDashboardsInFolderLoop E S fr folderID ys rs t
                (emit (Log LvlError ''failed to load LibraryElements from '' (Some err)) w)"
      by (simp only: track_zeroMetadata)
  qed
  have mload: "\<forall>ferr w1.
         getOrCreateFolderID E S (Cfg fr) (folderNameFromFileStructure root path) w
           = ((folderID, ferr), w1) \<and> tolerated ferr
         \<and> resolveSymlink E fi path = (Some rfi, None)
         \<and> readLibraryElementsFromFile E fr path (fiModTime rfi) folderID = Inl err
      \<longrightarrow> storeLibraryElementsInFoldersFromFileStructure E S fr ((path, fi) # ys) rs root t w
            = storeLibraryElementsInFoldersFromFileStructure E S fr ys rs root t
                (emit (Log LvlError ''failed to load LibraryElements from '' (Some err)) w1)"
  proof (intro allI impI)
    fix ferr w1
    assume a: "getOrCreateFolderID E S (Cfg fr) (folderNameFromFileStructure root path) w
           = ((folderID, ferr), w1) \<and> tolerated ferr
         \<and> resolveSymlink E fi path = (Some rfi, None)
         \<and> readLibraryElementsFromFile E fr path (fiModTime rfi) folderID = Inl err"
    have g: "getOrCreateFolderID E S (Cfg fr) (folderNameFromFileStructure root path) w
           = ((folderID, ferr), w1)"
      and tl: "tolerated ferr"
      and r: "resolveSymlink E fi path = (Some rfi, None)"
      and l: "readLibraryElementsFromFile E fr path (fiModTime rfi) folderID = Inl err"
      using a by blast+
    from mirrored_step [OF g tl saveLibraryElements_load_error [OF r l, of S rs w1],
           where rest = ys and t = t]
    show "storeLibraryElementsInFoldersFromFileStructure E S fr ((path, fi) # ys) rs root t w
            = storeLibraryElementsInFoldersFromFileStructure E S fr ys rs root t
                (emit (Log LvlError ''failed to load LibraryElements from '' (Some err)) w1)"
      by (simp add: track_zeroMetadata)
  qed
  note c2 = unprovisionLoop_calls [of S ids w]
  note c3 = deleteLoop_calls [of S orgID ids w]
  note c6 = flat_loop_append [of E S fr folderID xs ys rs t w]
  show ?thesis
    by (rule conjI [OF struct conjI [OF c2 conjI [OF c3 conjI [OF dstep conjI [OF load
          conjI [OF c6 conjI [OF mapp conjI [OF flat [THEN conjunct1]
          conjI [OF flat [THEN conjunct2] conjI [OF mab conjI [OF merr conjI [OF place
          conjI [OF wflat conjI [OF wmirr conjI [OF fload mload]]]]]]]]]]]]]]])
qed

theorem scan_error_handling_witness:
  "osStat exEnvNoRoot (resolvedRoot exEnvNoRoot (exReader False False)) \<noteq> None
   \<and> fst (walkDisk exEnvNoRoot (exService noFaults) (exReader False False)
          (exWorld [exRef ''/defs/gone.json'' ''x'' 7])) \<noteq> None
   \<and> filter isMutation (trace (snd (snd (walkDisk exEnvNoRoot (exService noFaults)
          (exReader False False) (exWorld [exRef ''/defs/gone.json'' ''x'' 7])))))
       = []
   \<and> resolveSymlink exEnv (exInfo ''bad.json'' 10) ''/defs/bad.json''
       = (Some (exInfo ''bad.json'' 10), None)
   \<and> readLibraryElementsFromFile exEnv (exReader False False) ''/defs/bad.json''
         (fiModTime (exInfo ''bad.json'' 10)) 0 = Inl (OtherError ''invalid character'')
   \<and> saveLibraryElements exEnv (exService noFaults) (exReader False False) ''/defs/bad.json'' 0
         (exInfo ''bad.json'' 10) [] (exWorld [])
       = ((zeroMetadata, None),
          emit (Log LvlError ''failed to load LibraryElements from ''
                  (Some (OtherError ''invalid character''))) (exWorld []))
   \<and> osStat exEnvRev (resolvedRoot exEnvRev (exReader True False)) = None
   \<and> getProvisionedLibraryElementssByPath (exService exFaultyQuery) (store (exWorld []))
         (cfgName (Cfg (exReader True False))) = Inr []
   \<and> Walk (resolvedRoot exEnvRev (exReader True False))
         (walkTree exEnvRev (resolvedRoot exEnvRev (exReader True False))) []
       = (None, [(''/defs/a.json'', exInfo ''a.json'' 10), (''/defs/sub/b.json'', exInfo ''b.json'' 20)])
   \<and> fst (walkDisk exEnvRev (exService exFaultyQuery) (exReader True False) (exWorld []))
       = fst (placementPass exEnvRev (exService exFaultyQuery) (exReader True False) []
                [(''/defs/a.json'', exInfo ''a.json'' 10), (''/defs/sub/b.json'', exInfo ''b.json'' 20)]
                (exWorld []))
   \<and> fst (snd (walkDisk exEnvRev (exService exFaultyQuery) (exReader True False) (exWorld [])))
       = exReader True False"
proof -
  have h0: "osStat exEnvNoRoot (resolvedRoot exEnvNoRoot (exReader False False)) \<noteq> None"
    by (simp add: exEnvNoRoot_def exEnv_def)
  have h1: "resolveSymlink exEnv (exInfo ''bad.json'' 10) ''/defs/bad.json''
              = (Some (exInfo ''bad.json'' 10), None)"
    by (simp add: ex_resolveSymlink)
  have h2: "readLibraryElementsFromFile exEnv (exReader False False) ''/defs/bad.json''
              (fiModTime (exInfo ''bad.json'' 10)) 0 = Inl (OtherError ''invalid character'')"
    by (simp add: readLibraryElementsFromFile_def exEnv_def)
  have h3: "osStat exEnvRev (resolvedRoot exEnvRev (exReader True False)) = None"
    by (simp add: exEnvRev_def exEnv_def)
  have h4: "getProvisionedLibraryElementssByPath (exService exFaultyQuery) (store (exWorld []))
         (cfgName (Cfg (exReader True False))) = Inr []"
    by code_simp
  have h5: "Walk (resolvedRoot exEnvRev (exReader True False))
         (walkTree exEnvRev (resolvedRoot exEnvRev (exReader True False))) []
       = (None, [(''/defs/a.json'', exInfo ''a.json'' 10), (''/defs/sub/b.json'', exInfo ''b.json'' 20)])"
    by code_simp
  have h6: "fst (placementPass exEnvRev (exService exFaultyQuery) (exReader True False) []
                [(''/defs/a.json'', exInfo ''a.json'' 10), (''/defs/sub/b.json'', exInfo ''b.json'' 20)]
                (exWorld [])) \<noteq> None"
    by code_simp
  note T1 = scan_error_handling [where E = exEnvNoRoot and S = "exService noFaults"
        and fr = "exReader False False" and w = "exWorld [exRef ''/defs/gone.json'' ''x'' 7]"]
  note T2 = scan_error_handling [where E = exEnv and S = "exService noFaults"
        and fr = "exReader False False" and w = "exWorld []" and fi = "exInfo ''bad.json'' 10"
        and path = "''/defs/bad.json''" and rfi = "exInfo ''bad.json'' 10" and folderID = 0
        and err = "OtherError ''invalid character''" and rs = "[]"]
  note T3 = scan_error_handling [where E = exEnvRev and S = "exService exFaultyQuery"
        and fr = "exReader True False" and w = "exWorld []" and provisioned = "[]"
        and onDisk = "[(''/defs/a.json'', exInfo ''a.json'' 10),
                       (''/defs/sub/b.json'', exInfo ''b.json'' 20)]"]
  have a: "fst (walkDisk exEnvNoRoot (exService noFaults) (exReader False False)
              (exWorld [exRef ''/defs/gone.json'' ''x'' 7])) \<noteq> None
         \<and> filter isMutation (trace (snd (snd (walkDisk exEnvNoRoot (exService noFaults)
              (exReader False False) (exWorld [exRef ''/defs/gone.json'' ''x'' 7]))))) = []"
    using T1 [THEN conjunct1] h0 by (simp add: exWorld_def)
  have b: "saveLibraryElements exEnv (exService noFaults) (exReader False False) ''/defs/bad.json'' 0
         (exInfo ''bad.json'' 10) [] (exWorld [])
       = ((zeroMetadata, None),
          emit (Log LvlError ''failed to load LibraryElements from ''
                  (Some (OtherError ''invalid character''))) (exWorld []))"
    using T2 [THEN conjunct2, THEN conjunct2, THEN conjunct2, THEN conjunct2, THEN conjunct1]
      h1 h2 by blast
  have c: "fst (walkDisk exEnvRev (exService exFaultyQuery) (exReader True False) (exWorld []))
       = fst (placementPass exEnvRev (exService exFaultyQuery) (exReader True False) []
                [(''/defs/a.json'', exInfo ''a.json'' 10), (''/defs/sub/b.json'', exInfo ''b.json'' 20)]
                (exWorld []))
     \<and> fst (snd (walkDisk exEnvRev (exService exFaultyQuery) (exReader True False) (exWorld [])))
       = exReader True False"
    using T3 [THEN conjunct2, THEN conjunct2, THEN conjunct2, THEN conjunct2, THEN conjunct2,
              THEN conjunct2, THEN conjunct2, THEN conjunct2, THEN conjunct2, THEN conjunct2,
              THEN conjunct2, THEN conjunct1] h3 h4 h5 h6
    by simp
  show ?thesis
    using h0 a h1 h2 b h3 h4 h5 c by (intro conjI) blast+
qed


section \<open>Paths below a clean absolute root\<close>











lemma rootedPath_nonempty: "rootedPath cs \<noteq> [] \<and> hd (rootedPath cs) = CHR ''/''"
  by (simp add: rootedPath_def)







section \<open>The walk collects the definition files\<close>

lemma walk_FileNode:
  "walk path (FileNode n t) acc
     = (None, if HasSuffix n ''.json''
              then AList.update path \<lparr>fiName = n, fiIsDir = False, fiModTime = t\<rparr> acc
              else acc)"
  by (simp add: createWalkFn_def validateWalkablePath_def)

lemma walk_DirNode:
  "walk path (DirNode n t err names) acc
     = (case err of
          Some e \<Rightarrow> (Some e, acc)
        | None \<Rightarrow> if HasPrefix n ''.'' then (Some SkipDir, acc) else walkNames path names acc)"
  by (simp add: createWalkFn_def validateWalkablePath_def split: option.splits)

lemma walk_LstatError: "walk path (LstatError n e) acc = (Some e, acc)"
  by (simp add: createWalkFn_def)

lemma walk_collects:
  "(\<forall>err fs. walk path node acc = (err, fs) \<and> (err = None \<or> err = Some SkipDir)
       \<longrightarrow> map_of fs = map_of acc ++ map_of (rev (definitionFiles path node)))"
  "(\<forall>err fs. walkNames path names acc = (err, fs) \<and> (err = None \<or> err = Some SkipDir)
       \<longrightarrow> map_of fs = map_of acc ++ map_of (rev (definitionFilesIn path names)))"
proof (induction path node acc and path names acc rule: walk_walkNames.induct)
  case (1 path n e filesOnDisk)
  show ?case by (simp only: walk_LstatError) simp
next
  case (2 path n t filesOnDisk)
  show ?case by (simp only: walk_FileNode) (simp add: update_conv')
next
  case (3 path n t err names filesOnDisk)
  show ?case
  proof (cases err)
    case (Some e)
    then show ?thesis by (simp only: walk_DirNode) simp
  next
    case None
    show ?thesis
    proof (cases "HasPrefix n ''.''")
      case True
      then show ?thesis using None by (simp only: walk_DirNode) simp
    next
      case False
      have c: "createWalkFn filesOnDisk path (nodeInfo (DirNode n t err names)) err
                 = (None, filesOnDisk)"
        using None False by (simp add: createWalkFn_def validateWalkablePath_def)
      have "\<forall>err' fs. walkNames path names filesOnDisk = (err', fs)
                \<and> (err' = None \<or> err' = Some SkipDir)
              \<longrightarrow> map_of fs = map_of filesOnDisk ++ map_of (rev (definitionFilesIn path names))"
        using "3.IH" [of None filesOnDisk] c None by simp
      then show ?thesis using None False by (simp only: walk_DirNode) simp
    qed
  qed
next
  case (4 path filesOnDisk)
  show ?case by simp
next
  case (5 path entry rest filesOnDisk)
  obtain e1 f1 where w: "walk (Join path (nodeName entry)) entry filesOnDisk = (e1, f1)"
    by (metis surj_pair)
  show ?case
  proof (cases "e1 \<noteq> None \<and> ((nodeInfo entry \<noteq> None \<and> \<not> nodeIsDir entry) \<or> e1 \<noteq> Some SkipDir)")
    case True
    have "e1 \<noteq> Some SkipDir"
    proof
      assume s: "e1 = Some SkipDir"
      then have "nodeInfo entry \<noteq> None \<and> \<not> nodeIsDir entry" using True by simp
      then obtain n t where en: "entry = FileNode n t" by (cases entry) simp_all
      have "fst (walk p (FileNode n t) filesOnDisk) = None" for p
        by (simp only: walk_FileNode fst_conv)
      then have "fst (walk (Join path (nodeName entry)) entry filesOnDisk) = None"
        unfolding en .
      then show False using w s by simp
    qed
    then show ?thesis using True w by auto
  next
    case False
    then have ok: "e1 = None \<or> e1 = Some SkipDir" by auto
    have m1: "map_of f1 = map_of filesOnDisk
                ++ map_of (rev (definitionFiles (Join path (nodeName entry)) entry))"
      using "5.IH"(1) w ok by simp
    have "\<forall>err fs. walkNames path rest f1 = (err, fs) \<and> (err = None \<or> err = Some SkipDir)
            \<longrightarrow> map_of fs = map_of f1 ++ map_of (rev (definitionFilesIn path rest))"
      using "5.IH"(2) [of e1 f1] w False by simp
    then show ?thesis using w False m1 by (auto simp: map_add_assoc)
  qed
qed

lemma definitionFiles_entries:
  "(\<forall>p fi. (p, fi) \<in> set (definitionFiles path node)
       \<longrightarrow> \<not> fiIsDir fi \<and> HasSuffix (fiName fi) ''.json'')"
  "(\<forall>p fi. (p, fi) \<in> set (definitionFilesIn path names)
       \<longrightarrow> \<not> fiIsDir fi \<and> HasSuffix (fiName fi) ''.json'')"
  by (induction path node and path names rule: definitionFiles_definitionFilesIn.induct) auto

lemma walk_distinct:
  "distinct (map fst acc) \<longrightarrow> distinct (map fst (snd (walk path node acc)))"
  "distinct (map fst acc) \<longrightarrow> distinct (map fst (snd (walkNames path names acc)))"
proof (induction path node acc and path names acc rule: walk_walkNames.induct)
  case (1 path n e filesOnDisk)
  show ?case by (simp only: walk_LstatError) simp
next
  case (2 path n t filesOnDisk)
  show ?case by (simp only: walk_FileNode) (simp add: distinct_update)
next
  case (3 path n t err names filesOnDisk)
  show ?case
  proof (cases err)
    case (Some e)
    then show ?thesis by (simp only: walk_DirNode) simp
  next
    case None
    show ?thesis
    proof (cases "HasPrefix n ''.''")
      case True
      then show ?thesis using None by (simp only: walk_DirNode) simp
    next
      case False
      have c: "createWalkFn filesOnDisk path (nodeInfo (DirNode n t err names)) err
                 = (None, filesOnDisk)"
        using None False by (simp add: createWalkFn_def validateWalkablePath_def)
      have "distinct (map fst filesOnDisk)
              \<longrightarrow> distinct (map fst (snd (walkNames path names filesOnDisk)))"
        using "3.IH" [of None filesOnDisk] c None by simp
      then show ?thesis using None False by (simp only: walk_DirNode) simp
    qed
  qed
next
  case (4 path filesOnDisk)
  show ?case by simp
next
  case (5 path entry rest filesOnDisk)
  obtain e1 f1 where w: "walk (Join path (nodeName entry)) entry filesOnDisk = (e1, f1)"
    by (metis surj_pair)
  have d1: "distinct (map fst filesOnDisk) \<longrightarrow> distinct (map fst f1)"
    using "5.IH"(1) w by simp
  show ?case
  proof (cases "e1 \<noteq> None \<and> ((nodeInfo entry \<noteq> None \<and> \<not> nodeIsDir entry) \<or> e1 \<noteq> Some SkipDir)")
    case True
    then show ?thesis using w d1 by auto
  next
    case False
    have "distinct (map fst f1) \<longrightarrow> distinct (map fst (snd (walkNames path rest f1)))"
      using "5.IH"(2) [of e1 f1] w False by simp
    then show ?thesis using w False d1 by auto
  qed
qed

lemma Walk_distinct: "distinct (map fst (snd (Walk root node [])))"
proof -
  obtain err fs where w: "walk root node [] = (err, fs)" by (metis surj_pair)
  then have "distinct (map fst fs)"
    using walk_distinct(1) [of "[]" root node] by simp
  then show ?thesis using w by (simp add: Walk_def)
qed

text \<open>
  C7. When the walk of a root succeeds, the mapping it returns is exactly the mapping of
  the definition files of the tree: its keys are the paths of the non-directory entries
  whose name ends in \<open>.json\<close> and that lie below no directory whose name starts with a
  dot, each with the metadata of that entry; no directory is a key, and no file with
  another ending. A directory whose name starts with a dot ends its own visit with
  \<open>SkipDir\<close> and leaves the mapping as it was whatever its entries are: they are never
  visited.
\<close>

theorem Walk_collects_definition_files:
  assumes "Walk root node [] = (None, fs)"
  shows "map_of fs = map_of (rev (definitionFiles root node))
       \<and> fst ` set fs = fst ` set (definitionFiles root node)
       \<and> distinct (map fst fs)
       \<and> (\<forall>p fi. (p, fi) \<in> set fs \<longrightarrow> \<not> fiIsDir fi \<and> HasSuffix (fiName fi) ''.json'')
       \<and> (HasPrefix n ''.'' \<longrightarrow>
            walk path (DirNode n t None names) acc = (Some SkipDir, acc)
          \<and> definitionFiles path (DirNode n t None names) = [])"
proof -
  obtain err where w: "walk root node [] = (err, fs)" and e: "err = None \<or> err = Some SkipDir"
    using assms by (auto simp: Walk_def split: prod.splits if_splits)
  have m: "map_of fs = map_of (rev (definitionFiles root node))"
    using walk_collects(1) [of root node "[]"] w e by simp
  have "dom (map_of fs) = dom (map_of (rev (definitionFiles root node)))"
    using m by simp
  then have k: "fst ` set fs = fst ` set (definitionFiles root node)"
    by (simp add: dom_map_of_conv_image_fst)
  have d: "distinct (map fst fs)"
    using Walk_distinct [of root node] assms by simp
  have f: "\<not> fiIsDir fi \<and> HasSuffix (fiName fi) ''.json''" if "(p, fi) \<in> set fs" for p fi
  proof -
    have "map_of fs p = Some fi" using d that by simp
    then have "map_of (rev (definitionFiles root node)) p = Some fi" using m by simp
    then have "(p, fi) \<in> set (definitionFiles root node)"
      using map_of_SomeD by fastforce
    then show ?thesis using definitionFiles_entries(1) by blast
  qed
  have h: "HasPrefix n ''.'' \<longrightarrow>
            walk path (DirNode n t None names) acc = (Some SkipDir, acc)
          \<and> definitionFiles path (DirNode n t None names) = []"
    by (simp only: walk_DirNode) simp
  show ?thesis using m k d f h by blast
qed

theorem Walk_collects_definition_files_witness:
  "Walk ''/defs'' exTree []
     = (None, [(''/defs/a.json'', exInfo ''a.json'' 10), (''/defs/sub/b.json'', exInfo ''b.json'' 20)])
   \<and> fst ` set [(''/defs/a.json'', exInfo ''a.json'' 10), (''/defs/sub/b.json'', exInfo ''b.json'' 20)]
     = fst ` set (definitionFiles ''/defs'' exTree)
   \<and> definitionFiles ''/defs'' exTree
     = [(''/defs/a.json'', exInfo ''a.json'' 10), (''/defs/sub/b.json'', exInfo ''b.json'' 20)]
   \<and> HasPrefix ''.git'' ''.''
   \<and> walk ''/defs/.git'' (DirNode ''.git'' 3 None [FileNode ''c.json'' 30]) [] = (Some SkipDir, [])"
proof -
  have h: "Walk ''/defs'' exTree []
     = (None, [(''/defs/a.json'', exInfo ''a.json'' 10), (''/defs/sub/b.json'', exInfo ''b.json'' 20)])"
    by code_simp
  have d: "definitionFiles ''/defs'' exTree
     = [(''/defs/a.json'', exInfo ''a.json'' 10), (''/defs/sub/b.json'', exInfo ''b.json'' 20)]"
    by code_simp
  have p: "HasPrefix ''.git'' ''.''" by code_simp
  show ?thesis
    using h d p
      Walk_collects_definition_files [OF h, where n = "''.git''" and path = "''/defs/.git''"
        and t = 3 and names = "[FileNode ''c.json'' 30]" and acc = "[]"]
    by blast
qed


section \<open>Folder names in mirrored mode\<close>









end
